theory Spec2Isabelle
  imports Complex_Main
begin

section \<open>Conventions of the embedding\<close>

text \<open>
  The development embeds two headers of the repository:
  \<^verbatim>\<open>opm/autodiff/RateConverter.hpp\<close> (the surface-to-reservoir voidage converter) and
  \<^verbatim>\<open>opm/autodiff/MultisegmentWell.hpp\<close> (the declarations of the multisegment well).

  \<^item> A C++ \<^verbatim>\<open>double\<close> is idealised as a \<^typ>\<open>real\<close>: rounding, infinities and NaN
    are not modelled.
  \<^item> A container that the source only reads and writes through \<^verbatim>\<open>operator[]\<close> or
    \<^verbatim>\<open>operator()\<close> (the template types \<^verbatim>\<open>Input\<close> and \<^verbatim>\<open>Coeff\<close>, the
    \<^verbatim>\<open>Eigen::ArrayXd Rmax\<close>, the cell vectors of the reservoir state) is a function from
    the index to the entry. An access outside the container is undefined behaviour in the
    source; the callers keep the indices inside, and the model has an entry at every index.
  \<^item> An exception is a value: a pure query returns \<open>error + 'a\<close>, and a method that
    writes to an object or an output parameter returns an \<open>outcome\<close> together with the
    object as the call leaves it.
\<close>

section \<open>RateConverter.hpp: collaborating types\<close>

text \<open>
  \<^verbatim>\<open>BlackoilPhases\<close>, \<^verbatim>\<open>PhaseUsage\<close>, \<^verbatim>\<open>PhasePresence\<close>, \<^verbatim>\<open>BlackoilState\<close> and
  \<^verbatim>\<open>RegionMapping\<close> are types of another library. They enter the embedding through the
  members that \<^verbatim>\<open>RateConverter.hpp\<close> uses.
\<close>

datatype PhaseIndex = Aqua | Liquid | Vapour

record PhaseUsage =
  num_phases :: int
  phase_used :: "PhaseIndex \<Rightarrow> int"
  phase_pos :: "PhaseIndex \<Rightarrow> int"

record PhasePresence =
  free_water :: bool
  free_oil :: bool
  free_gas :: bool

definition PhasePresence_ctor :: PhasePresence where
  "PhasePresence_ctor = \<lparr>free_water = False, free_oil = False, free_gas = False\<rparr>"

definition setFreeWater :: "PhasePresence \<Rightarrow> PhasePresence" where
  "setFreeWater c = c\<lparr>free_water := True\<rparr>"

definition setFreeOil :: "PhasePresence \<Rightarrow> PhasePresence" where
  "setFreeOil c = c\<lparr>free_oil := True\<rparr>"

definition setFreeGas :: "PhasePresence \<Rightarrow> PhasePresence" where
  "setFreeGas c = c\<lparr>free_gas := True\<rparr>"

type_synonym RegionId = int

text \<open>
  The reverse region mapping: the active regions in iteration order, and the cells of
  each region.
\<close>

record RegionMapping =
  activeRegions :: "RegionId list"
  cells :: "RegionId \<Rightarrow> nat list"

record BlackoilState =
  state_pressure :: "nat \<Rightarrow> real"
  state_temperature :: "nat \<Rightarrow> real"

text \<open>
  The template parameter \<^verbatim>\<open>Property\<close>: the fluid property object. Its functions take
  and return one-element arrays, of which the source reads element 0; here they take and
  return that element. The last argument is the representative cell of the region.
\<close>

record Property =
  phaseUsage :: PhaseUsage
  numPhases :: int
  bWat :: "real \<Rightarrow> real \<Rightarrow> int \<Rightarrow> real"
  bOil :: "real \<Rightarrow> real \<Rightarrow> real \<Rightarrow> PhasePresence \<Rightarrow> int \<Rightarrow> real"
  bGas :: "real \<Rightarrow> real \<Rightarrow> real \<Rightarrow> PhasePresence \<Rightarrow> int \<Rightarrow> real"
  rsSat :: "real \<Rightarrow> real \<Rightarrow> int \<Rightarrow> real"
  rvSat :: "real \<Rightarrow> real \<Rightarrow> int \<Rightarrow> real"

datatype error = invalid_argument string | assertion_failed | division_by_zero

datatype outcome = Returned | Thrown error

section \<open>Details::AverageIncrementCalculator\<close>

text \<open>
  The general template (a parallel run): only cells owned by the process contribute.
  The specialisation for \<^verbatim>\<open>false\<close> (a sequential run): every cell contributes once.
\<close>

definition AverageIncrementCalculator_true ::
  "(nat \<Rightarrow> real) \<Rightarrow> (nat \<Rightarrow> real) \<Rightarrow> (nat \<Rightarrow> real) \<Rightarrow> nat \<Rightarrow> real \<times> real \<times> nat" where
  "AverageIncrementCalculator_true pressure temperature ownership cell =
     (if ownership cell \<noteq> 0 then (pressure cell, temperature cell, 1) else (0, 0, 0))"

definition AverageIncrementCalculator_false ::
  "(nat \<Rightarrow> real) \<Rightarrow> (nat \<Rightarrow> real) \<Rightarrow> (nat \<Rightarrow> real) \<Rightarrow> nat \<Rightarrow> real \<times> real \<times> nat" where
  "AverageIncrementCalculator_false pressure temperature ownership cell =
     (pressure cell, temperature cell, 1)"

section \<open>Details::RegionAttributes\<close>

text \<open>
  The attributes of the converter (\<^verbatim>\<open>SurfaceToReservoirVoidage::Attributes\<close>) and the
  \<^verbatim>\<open>Value\<close> that the region table stores for each region: the attributes and the
  representative cell, \<open>-1\<close> until the constructor of the table sets it.
\<close>

record Attributes =
  pressure :: real
  temperature :: real
  Rmax :: "int \<Rightarrow> real"

definition Attributes_ctor :: "int \<Rightarrow> Attributes" where
  "Attributes_ctor np = \<lparr>pressure = 0, temperature = 0, Rmax = (\<lambda>_. 0)\<rparr>"

record Value =
  value_attr :: Attributes
  value_cell :: int

definition Value_ctor :: "Attributes \<Rightarrow> Value" where
  "Value_ctor attr = \<lparr>value_attr = attr, value_cell = -1\<rparr>"

text \<open>The class has one member, the \<^verbatim>\<open>unordered_map\<close> from region to value.\<close>

type_synonym RegionAttributes = "RegionId \<rightharpoonup> Value"

text \<open>
  The constructor's loop over \<^verbatim>\<open>rmap.activeRegions()\<close>. \<^verbatim>\<open>insert\<close> leaves an entry
  that is already there; for a new entry the region must have a cell
  (\<^verbatim>\<open>assert (! cells.empty())\<close>), and the first one becomes the representative.
\<close>

fun RegionAttributes_insert ::
  "RegionMapping \<Rightarrow> Attributes \<Rightarrow> RegionAttributes \<Rightarrow> RegionId list \<Rightarrow> error + RegionAttributes" where
  "RegionAttributes_insert rmap attr m [] = Inr m"
| "RegionAttributes_insert rmap attr m (r # regs) =
     (case m r of
        Some _ \<Rightarrow> RegionAttributes_insert rmap attr m regs
      | None \<Rightarrow>
          (case cells rmap r of
             [] \<Rightarrow> Inl assertion_failed
           | c # _ \<Rightarrow>
               RegionAttributes_insert rmap attr
                 (m(r \<mapsto> (Value_ctor attr)\<lparr>value_cell := int c\<rparr>)) regs))"

definition RegionAttributes_ctor :: "RegionMapping \<Rightarrow> Attributes \<Rightarrow> error + RegionAttributes" where
  "RegionAttributes_ctor rmap attr = RegionAttributes_insert rmap attr Map.empty (activeRegions rmap)"

text \<open>
  \<^verbatim>\<open>find\<close>, in its read-only and its read-write overload: both look the region up and
  throw when it is not in the table; neither inserts.
\<close>

definition RegionAttributes_find :: "RegionAttributes \<Rightarrow> RegionId \<Rightarrow> error + Value" where
  "RegionAttributes_find m reg =
     (case m reg of
        None \<Rightarrow> Inl (invalid_argument ''Unknown region ID'')
      | Some v \<Rightarrow> Inr v)"

definition cell :: "RegionAttributes \<Rightarrow> RegionId \<Rightarrow> error + int" where
  "cell m reg = (case RegionAttributes_find m reg of Inl e \<Rightarrow> Inl e | Inr v \<Rightarrow> Inr (value_cell v))"

definition attributes :: "RegionAttributes \<Rightarrow> RegionId \<Rightarrow> error + Attributes" where
  "attributes m reg = (case RegionAttributes_find m reg of Inl e \<Rightarrow> Inl e | Inr v \<Rightarrow> Inr (value_attr v))"

text \<open>
  The read-write overload of \<^verbatim>\<open>attributes\<close> hands out a reference; the caller writes
  through it. \<open>attributes_rw m reg f\<close> is the table after the caller has replaced the
  attributes \<open>a\<close> of \<open>reg\<close> by \<open>f a\<close>. When the lookup throws, the table is as it was.
\<close>

definition attributes_rw ::
  "RegionAttributes \<Rightarrow> RegionId \<Rightarrow> (Attributes \<Rightarrow> Attributes) \<Rightarrow> outcome \<times> RegionAttributes" where
  "attributes_rw m reg f =
     (case RegionAttributes_find m reg of
        Inl e \<Rightarrow> (Thrown e, m)
      | Inr v \<Rightarrow> (Returned, m(reg \<mapsto> v\<lparr>value_attr := f (value_attr v)\<rparr>)))"

section \<open>Details::PhaseUsed and Details::PhasePos\<close>

definition PhaseUsed_water :: "PhaseUsage \<Rightarrow> bool" where
  "PhaseUsed_water pu = (phase_used pu Aqua \<noteq> 0)"

definition PhaseUsed_oil :: "PhaseUsage \<Rightarrow> bool" where
  "PhaseUsed_oil pu = (phase_used pu Liquid \<noteq> 0)"

definition PhaseUsed_gas :: "PhaseUsage \<Rightarrow> bool" where
  "PhaseUsed_gas pu = (phase_used pu Vapour \<noteq> 0)"

definition PhasePos_water :: "PhaseUsage \<Rightarrow> int" where
  "PhasePos_water pu = (if PhaseUsed_water pu then phase_pos pu Aqua else -1)"

definition PhasePos_oil :: "PhaseUsage \<Rightarrow> int" where
  "PhasePos_oil pu = (if PhaseUsed_oil pu then phase_pos pu Liquid else -1)"

definition PhasePos_gas :: "PhaseUsage \<Rightarrow> int" where
  "PhasePos_gas pu = (if PhaseUsed_gas pu then phase_pos pu Vapour else -1)"

section \<open>SurfaceToReservoirVoidage\<close>

text \<open>
  The members \<^verbatim>\<open>props_\<close>, \<^verbatim>\<open>rmap_\<close> and \<^verbatim>\<open>attr_\<close> of the class. A name cannot
  end in an underscore here, so they are \<open>this_props\<close>, \<open>this_rmap\<close> and \<open>this_attr\<close>.
\<close>

record SurfaceToReservoirVoidage =
  this_props :: Property
  this_rmap :: RegionMapping
  this_attr :: RegionAttributes

text \<open>
  The constructor. The source builds the reverse mapping \<^verbatim>\<open>rmap_\<close> from the forward
  mapping it is given; here the reverse mapping is the argument.
\<close>

definition SurfaceToReservoirVoidage_ctor ::
  "Property \<Rightarrow> RegionMapping \<Rightarrow> error + SurfaceToReservoirVoidage" where
  "SurfaceToReservoirVoidage_ctor props region =
     (case RegionAttributes_ctor region (Attributes_ctor (numPhases props)) of
        Inl e \<Rightarrow> Inl e
      | Inr m \<Rightarrow> Inr \<lparr>this_props = props, this_rmap = region, this_attr = m\<rparr>)"

definition getRegCell :: "SurfaceToReservoirVoidage \<Rightarrow> RegionId \<Rightarrow> error + int" where
  "getRegCell conv r = cell (this_attr conv) r"

subsection \<open>calcAverages\<close>

text \<open>
  The inner loop of \<^verbatim>\<open>calcAverages<false>\<close> over the cells of one region, with the
  accumulators \<open>p\<close>, \<open>T\<close> and \<open>n\<close>.
\<close>

fun calcAverages_cells ::
  "(nat \<Rightarrow> real) \<Rightarrow> (nat \<Rightarrow> real) \<Rightarrow> (nat \<Rightarrow> real) \<Rightarrow> nat list \<Rightarrow> real \<times> real \<times> nat
     \<Rightarrow> real \<times> real \<times> nat" where
  "calcAverages_cells press temp ownerShip [] acc = acc"
| "calcAverages_cells press temp ownerShip (c # cs) (p, T, n) =
     (case AverageIncrementCalculator_false press temp ownerShip c of
        (dp, dT, dn) \<Rightarrow> calcAverages_cells press temp ownerShip cs (p + dp, T + dT, n + dn))"

text \<open>
  The body of the outer loop for one region: look the attributes up (read-write), sum
  over the cells starting from \<open>p = T = 0\<close> and \<open>n = 0\<close>, and store the quotients. Without
  MPI the global sums are the local ones.
\<close>

definition calcAverages_region ::
  "SurfaceToReservoirVoidage \<Rightarrow> BlackoilState \<Rightarrow> (nat \<Rightarrow> real) \<Rightarrow> RegionId
     \<Rightarrow> outcome \<times> SurfaceToReservoirVoidage" where
  "calcAverages_region conv state ownerShip reg =
     (case attributes_rw (this_attr conv) reg
             (\<lambda>ra. case calcAverages_cells (state_pressure state) (state_temperature state)
                          ownerShip (cells (this_rmap conv) reg) (0, 0, 0) of
                     (p, T, n) \<Rightarrow> ra\<lparr>pressure := p / real n, temperature := T / real n\<rparr>) of
        (out, m) \<Rightarrow> (out, conv\<lparr>this_attr := m\<rparr>))"

fun calcAverages_regions ::
  "SurfaceToReservoirVoidage \<Rightarrow> BlackoilState \<Rightarrow> (nat \<Rightarrow> real) \<Rightarrow> RegionId list
     \<Rightarrow> outcome \<times> SurfaceToReservoirVoidage" where
  "calcAverages_regions conv state ownerShip [] = (Returned, conv)"
| "calcAverages_regions conv state ownerShip (reg # regs) =
     (case calcAverages_region conv state ownerShip reg of
        (Thrown e, conv') \<Rightarrow> (Thrown e, conv')
      | (Returned, conv') \<Rightarrow> calcAverages_regions conv' state ownerShip regs)"

definition calcAverages_false ::
  "SurfaceToReservoirVoidage \<Rightarrow> BlackoilState \<Rightarrow> (nat \<Rightarrow> real)
     \<Rightarrow> outcome \<times> SurfaceToReservoirVoidage" where
  "calcAverages_false conv state ownerShip =
     calcAverages_regions conv state ownerShip (activeRegions (this_rmap conv))"

subsection \<open>calcRmax\<close>

text \<open>
  The body of the loop of \<^verbatim>\<open>calcRmax\<close> for one region: the row \<open>io\<close> of \<open>Rmax\<close> is
  written first, the row \<open>ig\<close> second.
\<close>

definition calcRmax_region ::
  "SurfaceToReservoirVoidage \<Rightarrow> int \<Rightarrow> int \<Rightarrow> RegionId \<Rightarrow> outcome \<times> SurfaceToReservoirVoidage" where
  "calcRmax_region conv io ig reg =
     (case RegionAttributes_find (this_attr conv) reg of
        Inl e \<Rightarrow> (Thrown e, conv)
      | Inr v \<Rightarrow>
          (case getRegCell conv reg of
             Inl e \<Rightarrow> (Thrown e, conv)
           | Inr c \<Rightarrow>
               (let ra = value_attr v;
                    p = pressure ra;
                    T = temperature ra;
                    Rmax1 = (Rmax ra)(io := rsSat (this_props conv) p T c);
                    Rmax2 = Rmax1(ig := rvSat (this_props conv) p T c)
                in (Returned,
                    conv\<lparr>this_attr := (this_attr conv)(reg \<mapsto> v\<lparr>value_attr := ra\<lparr>Rmax := Rmax2\<rparr>\<rparr>)\<rparr>))))"

fun calcRmax_regions ::
  "SurfaceToReservoirVoidage \<Rightarrow> int \<Rightarrow> int \<Rightarrow> RegionId list \<Rightarrow> outcome \<times> SurfaceToReservoirVoidage" where
  "calcRmax_regions conv io ig [] = (Returned, conv)"
| "calcRmax_regions conv io ig (reg # regs) =
     (case calcRmax_region conv io ig reg of
        (Thrown e, conv') \<Rightarrow> (Thrown e, conv')
      | (Returned, conv') \<Rightarrow> calcRmax_regions conv' io ig regs)"

definition calcRmax :: "SurfaceToReservoirVoidage \<Rightarrow> outcome \<times> SurfaceToReservoirVoidage" where
  "calcRmax conv =
     (let pu = phaseUsage (this_props conv)
      in if PhaseUsed_oil pu \<and> PhaseUsed_gas pu
         then calcRmax_regions conv (PhasePos_oil pu) (PhasePos_gas pu) (activeRegions (this_rmap conv))
         else (Returned, conv))"

subsection \<open>defineState\<close>

text \<open>
  Without MPI \<^verbatim>\<open>defineState\<close> takes the sequential branch: \<^verbatim>\<open>calcAverages<false>\<close>
  with an ownership vector that is not read, then \<^verbatim>\<open>calcRmax\<close>.
\<close>

definition defineState ::
  "SurfaceToReservoirVoidage \<Rightarrow> BlackoilState \<Rightarrow> outcome \<times> SurfaceToReservoirVoidage" where
  "defineState conv state =
     (case calcAverages_false conv state (\<lambda>_. 0) of
        (Thrown e, conv') \<Rightarrow> (Thrown e, conv')
      | (Returned, conv') \<Rightarrow> calcRmax conv')"

subsection \<open>calcMiscibility\<close>

record Miscibility =
  rs :: real
  rv :: real
  cond :: PhasePresence

definition Miscibility_ctor :: Miscibility where
  "Miscibility_ctor = \<lparr>rs = 0, rv = 0, cond = PhasePresence_ctor\<rparr>"

type_synonym Input = "int \<Rightarrow> real"
type_synonym Coeff = "int \<Rightarrow> real"

text \<open>
  A quotient whose divisor is zero is not a real number (the source would produce an
  infinity or a NaN). \<^verbatim>\<open>calcMiscibility\<close> guards its two quotients; to make the effect of
  the guards a statement about the function, its quotients are written with \<open>fdiv\<close>,
  which reports a zero divisor instead of returning a value. The report is never made:
  for a known region \<^verbatim>\<open>calcMiscibility\<close> returns a value for every input.
\<close>

definition fdiv :: "real \<Rightarrow> real \<Rightarrow> error + real" where
  "fdiv x y = (if y = 0 then Inl division_by_zero else Inr (x / y))"

definition calcMiscibility ::
  "SurfaceToReservoirVoidage \<Rightarrow> Input \<Rightarrow> RegionId \<Rightarrow> error + Miscibility" where
  "calcMiscibility conv inp r =
     (let pu = phaseUsage (this_props conv)
      in case attributes (this_attr conv) r of
           Inl e \<Rightarrow> Inl e
         | Inr attr \<Rightarrow>
             (let io = PhasePos_oil pu;
                  ig = PhasePos_gas pu;
                  m0 = Miscibility_ctor;
                  m1 = (if PhaseUsed_water pu then m0\<lparr>cond := setFreeWater (cond m0)\<rparr> else m0)
              in case (if PhaseUsed_oil pu
                       then (let m2 = m1\<lparr>cond := setFreeOil (cond m1)\<rparr>
                             in if PhaseUsed_gas pu
                                then (let rsmax = Rmax attr io
                                      in case (if 0 < \<bar>inp io\<bar> then fdiv (inp ig) (inp io)
                                               else Inr (if 0 < \<bar>inp ig\<bar> then rsmax else 0)) of
                                           Inl e \<Rightarrow> Inl e
                                         | Inr rs' \<Rightarrow>
                                             (let m3 = (if rsmax < rs'
                                                        then m2\<lparr>cond := setFreeGas (cond m2)\<rparr>
                                                        else m2)
                                              in Inr (m3\<lparr>rs := min rs' rsmax\<rparr>)))
                                else Inr m2)
                       else Inr m1) of
                   Inl e \<Rightarrow> Inl e
                 | Inr m4 \<Rightarrow>
                     (if PhaseUsed_gas pu
                      then (let m5 = (if \<not> PhaseUsed_oil pu
                                      then m4\<lparr>cond := setFreeGas (cond m4)\<rparr>
                                      else m4)
                            in if PhaseUsed_oil pu
                               then (let rvmax = Rmax attr ig
                                     in case (if 0 < \<bar>inp ig\<bar> then fdiv (inp io) (inp ig)
                                              else Inr (if 0 < \<bar>inp io\<bar> then rvmax else 0)) of
                                          Inl e \<Rightarrow> Inl e
                                        | Inr rv' \<Rightarrow> Inr (m5\<lparr>rv := min rv' rvmax\<rparr>))
                               else Inr m5)
                      else Inr m4)))"

subsection \<open>calcCoeff\<close>

text \<open>
  \<^verbatim>\<open>calcCoeff\<close> writes to its output parameter \<open>coeff\<close>. The first statement that can
  throw is the lookup of the region, before \<open>coeff\<close> is touched. The quotients of
  \<^verbatim>\<open>calcCoeff\<close> are not guarded in the source and are plain quotients here.
\<close>

definition detR :: "Miscibility \<Rightarrow> real" where
  "detR m = 1 - rs m * rv m"

definition calcCoeff ::
  "SurfaceToReservoirVoidage \<Rightarrow> Input \<Rightarrow> RegionId \<Rightarrow> Coeff \<Rightarrow> outcome \<times> Coeff" where
  "calcCoeff conv inp r coeff =
     (let pu = phaseUsage (this_props conv)
      in case attributes (this_attr conv) r of
           Inl e \<Rightarrow> (Thrown e, coeff)
         | Inr ra \<Rightarrow>
             (let p = pressure ra;
                  T = temperature ra
              in case getRegCell conv r of
                   Inl e \<Rightarrow> (Thrown e, coeff)
                 | Inr c \<Rightarrow>
                     (let iw = PhasePos_water pu;
                          io = PhasePos_oil pu;
                          ig = PhasePos_gas pu;
                          coeff1 = (\<lambda>i. if 0 \<le> i \<and> i < numPhases (this_props conv) then 0 else coeff i);
                          coeff2 = (if PhaseUsed_water pu
                                    then coeff1(iw := 1 / bWat (this_props conv) p T c)
                                    else coeff1)
                      in case calcMiscibility conv inp r of
                           Inl e \<Rightarrow> (Thrown e, coeff2)
                         | Inr m \<Rightarrow>
                             (let coeff3 =
                                    (if PhaseUsed_oil pu
                                     then (let den = bOil (this_props conv) p T (rs m) (cond m) c * detR m;
                                               cf = coeff2(io := coeff2 io + 1 / den)
                                           in if PhaseUsed_gas pu
                                              then cf(ig := cf ig - rv m / den)
                                              else cf)
                                     else coeff2);
                                  coeff4 =
                                    (if PhaseUsed_gas pu
                                     then (let den = bGas (this_props conv) p T (rv m) (cond m) c * detR m;
                                               cf = coeff3(ig := coeff3 ig + 1 / den)
                                           in if PhaseUsed_oil pu
                                              then cf(io := cf io - rs m / den)
                                              else cf)
                                     else coeff3)
                              in (Returned, coeff4)))))"

section \<open>MultisegmentWell.hpp: the layout of the primary variables\<close>

text \<open>
  The class is a template over a \<^verbatim>\<open>TypeTag\<close>. Its static constants depend on three
  compile-time values of the tag: the number of reservoir equations \<^verbatim>\<open>numEq\<close>, the index
  \<^verbatim>\<open>Indices::compositionSwitchIdx\<close>, and the property \<^verbatim>\<open>EnablePolymer\<close>.
\<close>

record TypeTag =
  numEq :: int
  compositionSwitchIdx :: int
  EnablePolymer :: bool

definition gasoil :: "TypeTag \<Rightarrow> bool" where
  "gasoil t = (numEq t = 2 \<and> compositionSwitchIdx t \<ge> 0)"

definition GTotal :: int where
  "GTotal = 0"

definition WFrac :: "TypeTag \<Rightarrow> int" where
  "WFrac t = (if gasoil t then -1000 else 1)"

definition GFrac :: "TypeTag \<Rightarrow> int" where
  "GFrac t = (if gasoil t then 1 else 2)"

definition SPres :: "TypeTag \<Rightarrow> int" where
  "SPres t = (if gasoil t then 2 else 3)"

definition numWellEq :: "TypeTag \<Rightarrow> int" where
  "numWellEq t = (if EnablePolymer t then numEq t else numEq t + 1)"

section \<open>MultisegmentWell.hpp: the linear blocks of a well\<close>

text \<open>
  The header declares the blocks of the system
  \<^verbatim>\<open>[A C^T; B D] [x; x_well] = [res; res_well]\<close>: \<^verbatim>\<open>duneB_\<close>, \<^verbatim>\<open>duneC_\<close>, \<^verbatim>\<open>duneD_\<close>
  and the residual \<^verbatim>\<open>resWell_\<close>. A block vector is the list of its scalar entries and a
  block matrix the list of its scalar rows. The operations on them are those of the
  linear algebra library: scalar product, matrix times vector, difference of vectors, and
  the product and the identity that say what an inverse is.
\<close>

type_synonym vec = "real list"
type_synonym mat = "real list list"

definition dot :: "vec \<Rightarrow> vec \<Rightarrow> real" where
  "dot u v = sum_list (map2 (*) u v)"

definition mat_vec :: "mat \<Rightarrow> vec \<Rightarrow> vec" where
  "mat_vec A x = map (\<lambda>row. dot row x) A"

definition vec_sub :: "vec \<Rightarrow> vec \<Rightarrow> vec" where
  "vec_sub u v = map2 (-) u v"

definition col :: "mat \<Rightarrow> nat \<Rightarrow> vec" where
  "col A j = map (\<lambda>row. row ! j) A"

definition mat_mul :: "nat \<Rightarrow> mat \<Rightarrow> mat \<Rightarrow> mat" where
  "mat_mul n A B = map (\<lambda>row. map (\<lambda>j. dot row (col B j)) [0..<n]) A"

definition one_mat :: "nat \<Rightarrow> mat" where
  "one_mat n = map (\<lambda>i. map (\<lambda>j. if i = j then 1 else 0) [0..<n]) [0..<n]"

definition mat_dims :: "nat \<Rightarrow> nat \<Rightarrow> mat \<Rightarrow> bool" where
  "mat_dims n m A = (length A = n \<and> list_all (\<lambda>row. length row = m) A)"

text \<open>
  Modelled from the spec: the header declares \<^verbatim>\<open>duneB_\<close>, \<^verbatim>\<open>duneC_\<close>, \<^verbatim>\<open>duneD_\<close> and
  \<^verbatim>\<open>resWell_\<close>; what an assembly puts into them is in \<^verbatim>\<open>MultisegmentWell_impl.hpp\<close>,
  which is missing. After the spec, \<open>B\<close> takes reservoir unknowns to well equations, \<open>C\<close>
  takes well unknowns to reservoir equations (the header stores its transpose), \<open>D\<close>
  takes well unknowns to well equations, and \<open>D\<close> is inverted once per assembly by a direct
  factorisation: \<open>invDuneD\<close> is that inverse.
\<close>

record MultisegmentWell =
  duneB :: mat
  duneC :: mat
  duneD :: mat
  invDuneD :: mat
  resWell :: vec

text \<open>
  Modelled from the spec: the body of \<^verbatim>\<open>apply(x, Ax)\<close> is missing. After the spec it
  computes \<open>C \<cdot> (D\<^sup>-\<^sup>1 \<cdot> (B \<cdot> x))\<close> and subtracts it from the accumulator \<open>Ax\<close>. The
  result is the accumulator and the well as the call leaves them.
\<close>

definition apply_x_Ax :: "MultisegmentWell \<Rightarrow> vec \<Rightarrow> vec \<Rightarrow> vec \<times> MultisegmentWell" where
  "apply_x_Ax w x Ax =
     (let Bx = mat_vec (duneB w) x;
          invDBx = mat_vec (invDuneD w) Bx
      in (vec_sub Ax (mat_vec (duneC w) invDBx), w))"

text \<open>
  Modelled from the spec: the body of \<^verbatim>\<open>apply(r)\<close> is missing. After the spec it
  subtracts \<open>C \<cdot> (D\<^sup>-\<^sup>1 \<cdot> resWell)\<close> from the residual accumulator \<open>r\<close>.
\<close>

definition apply_r :: "MultisegmentWell \<Rightarrow> vec \<Rightarrow> vec \<times> MultisegmentWell" where
  "apply_r w r =
     (let invDrw = mat_vec (invDuneD w) (resWell w)
      in (vec_sub r (mat_vec (duneC w) invDrw), w))"

text \<open>
  Modelled from the spec: the body of \<^verbatim>\<open>recoverSolutionWell\<close> is missing. After the spec
  the well increment is \<open>xw = D\<^sup>-\<^sup>1 \<cdot> (resWell - B \<cdot> x)\<close>. (The comment at the declaration
  in the header writes \<open>C\<close> where the spec and the block system above have \<open>B\<close>.)
\<close>

definition recoverSolutionWell :: "MultisegmentWell \<Rightarrow> vec \<Rightarrow> vec" where
  "recoverSolutionWell w x =
     (let rw = vec_sub (resWell w) (mat_vec (duneB w) x)
      in mat_vec (invDuneD w) rw)"

section \<open>Vocabulary of the statements\<close>

text \<open>
  The converters the code can hold: the one the constructor returns, and every converter
  that a call of \<^verbatim>\<open>defineState\<close> leaves behind.
\<close>

inductive reachable :: "Property \<Rightarrow> RegionMapping \<Rightarrow> SurfaceToReservoirVoidage \<Rightarrow> bool" where
  constructed: "SurfaceToReservoirVoidage_ctor props region = Inr conv \<Longrightarrow> reachable props region conv"
| state_defined: "reachable props region conv \<Longrightarrow> defineState conv state = (out, conv') \<Longrightarrow> reachable props region conv'"

text \<open>
  What every such converter satisfies: the table has an entry exactly for the active
  regions, every active region has a cell, and unless oil and gas are both active no
  \<open>Rmax\<close> has been written.
\<close>

definition converter_inv :: "Property \<Rightarrow> RegionMapping \<Rightarrow> SurfaceToReservoirVoidage \<Rightarrow> bool" where
  "converter_inv props region conv =
     (this_props conv = props \<and> this_rmap conv = region \<and>
      dom (this_attr conv) = set (activeRegions region) \<and>
      (\<forall>r \<in> set (activeRegions region). cells region r \<noteq> []) \<and>
      (\<not> (PhaseUsed_oil (phaseUsage props) \<and> PhaseUsed_gas (phaseUsage props)) \<longrightarrow>
         (\<forall>r v. this_attr conv r = Some v \<longrightarrow> Rmax (value_attr v) = (\<lambda>_. 0))))"

text \<open>
  The entry of a region after \<^verbatim>\<open>calcAverages\<close> (\<open>averaged\<close>), after the loop body of
  \<^verbatim>\<open>calcRmax\<close> (\<open>saturated\<close>) and after \<^verbatim>\<open>defineState\<close> (\<open>defined_value\<close>).
\<close>

definition averaged :: "BlackoilState \<Rightarrow> RegionMapping \<Rightarrow> RegionId \<Rightarrow> Value \<Rightarrow> Value" where
  "averaged state region r v =
     v\<lparr>value_attr := (value_attr v)
        \<lparr>pressure := sum_list (map (state_pressure state) (cells region r)) / real (length (cells region r)),
         temperature := sum_list (map (state_temperature state) (cells region r)) / real (length (cells region r))\<rparr>\<rparr>"

definition saturated :: "Property \<Rightarrow> int \<Rightarrow> int \<Rightarrow> Value \<Rightarrow> Value" where
  "saturated props io ig v =
     v\<lparr>value_attr := (value_attr v)
        \<lparr>Rmax := ((Rmax (value_attr v))
                    (io := rsSat props (pressure (value_attr v)) (temperature (value_attr v)) (value_cell v)))
                    (ig := rvSat props (pressure (value_attr v)) (temperature (value_attr v)) (value_cell v))\<rparr>\<rparr>"

definition defined_value :: "Property \<Rightarrow> RegionMapping \<Rightarrow> BlackoilState \<Rightarrow> RegionId \<Rightarrow> Value \<Rightarrow> Value" where
  "defined_value props region state r v =
     (if PhaseUsed_oil (phaseUsage props) \<and> PhaseUsed_gas (phaseUsage props)
      then saturated props (PhasePos_oil (phaseUsage props)) (PhasePos_gas (phaseUsage props))
             (averaged state region r v)
      else averaged state region r v)"

text \<open>
  A well-formed phase usage for \<open>np\<close> phases: the position of every active phase is an
  index below \<open>np\<close>, and no two active phases share a position.
\<close>

definition PhaseUsage_wf :: "PhaseUsage \<Rightarrow> int \<Rightarrow> bool" where
  "PhaseUsage_wf pu np =
     ((PhaseUsed_water pu \<longrightarrow> 0 \<le> phase_pos pu Aqua \<and> phase_pos pu Aqua < np) \<and>
      (PhaseUsed_oil pu \<longrightarrow> 0 \<le> phase_pos pu Liquid \<and> phase_pos pu Liquid < np) \<and>
      (PhaseUsed_gas pu \<longrightarrow> 0 \<le> phase_pos pu Vapour \<and> phase_pos pu Vapour < np) \<and>
      (PhaseUsed_water pu \<and> PhaseUsed_oil pu \<longrightarrow> phase_pos pu Aqua \<noteq> phase_pos pu Liquid) \<and>
      (PhaseUsed_water pu \<and> PhaseUsed_gas pu \<longrightarrow> phase_pos pu Aqua \<noteq> phase_pos pu Vapour) \<and>
      (PhaseUsed_oil pu \<and> PhaseUsed_gas pu \<longrightarrow> phase_pos pu Liquid \<noteq> phase_pos pu Vapour))"

subsection \<open>A concrete converter\<close>

text \<open>
  Three active phases at the positions water 0, oil 1, gas 2; one region \<open>0\<close> with the
  cells 0 and 1, at pressures 100 and 200 and temperature 300; constant saturation maxima;
  the surface rates oil 50 and gas 25. \<open>ex_conv\<close> is the converter as constructed,
  \<open>ex_defined\<close> the converter after \<^verbatim>\<open>defineState\<close>.
\<close>

definition ex_pu :: PhaseUsage where
  "ex_pu = \<lparr>num_phases = 3, phase_used = (\<lambda>_. 1),
            phase_pos = (\<lambda>ph. case ph of Aqua \<Rightarrow> 0 | Liquid \<Rightarrow> 1 | Vapour \<Rightarrow> 2)\<rparr>"

definition ex_props :: "real \<Rightarrow> real \<Rightarrow> Property" where
  "ex_props rsmax rvmax =
     \<lparr>phaseUsage = ex_pu, numPhases = 3,
      bWat = (\<lambda>p T c. p / 100),
      bOil = (\<lambda>p T x cnd c. 1),
      bGas = (\<lambda>p T x cnd c. 1),
      rsSat = (\<lambda>p T c. rsmax),
      rvSat = (\<lambda>p T c. rvmax)\<rparr>"

definition ex_region :: RegionMapping where
  "ex_region = \<lparr>activeRegions = [0], cells = (\<lambda>r. if r = 0 then [0, 1] else [])\<rparr>"

definition ex_state :: BlackoilState where
  "ex_state = \<lparr>state_pressure = (\<lambda>c. if c = 0 then 100 else 200),
               state_temperature = (\<lambda>c. 300)\<rparr>"

definition ex_in :: Input where
  "ex_in = (\<lambda>i. if i = 1 then 50 else if i = 2 then 25 else 0)"

definition ex_conv :: "real \<Rightarrow> real \<Rightarrow> SurfaceToReservoirVoidage" where
  "ex_conv rsmax rvmax =
     \<lparr>this_props = ex_props rsmax rvmax, this_rmap = ex_region,
      this_attr = [0 \<mapsto> \<lparr>value_attr = \<lparr>pressure = 0, temperature = 0, Rmax = (\<lambda>_. 0)\<rparr>,
                          value_cell = 0\<rparr>]\<rparr>"

definition ex_defined :: "real \<Rightarrow> real \<Rightarrow> SurfaceToReservoirVoidage" where
  "ex_defined rsmax rvmax =
     \<lparr>this_props = ex_props rsmax rvmax, this_rmap = ex_region,
      this_attr = [0 \<mapsto> \<lparr>value_attr = \<lparr>pressure = 150, temperature = 300,
                                         Rmax = (\<lambda>_. 0)(1 := rsmax, 2 := rvmax)\<rparr>,
                          value_cell = 0\<rparr>]\<rparr>"

text \<open>
  The same converter with formation volume factors that depend on pressure and
  temperature: \<open>bw = p / 100\<close>, \<open>bo = p / 75\<close>, \<open>bg = T / 100\<close>, and the saturation maxima
  0.6 and 0.1.
\<close>

definition ex_props_pT :: Property where
  "ex_props_pT =
     \<lparr>phaseUsage = ex_pu, numPhases = 3,
      bWat = (\<lambda>p T c. p / 100),
      bOil = (\<lambda>p T x cnd c. p / 75),
      bGas = (\<lambda>p T x cnd c. T / 100),
      rsSat = (\<lambda>p T c. 3 / 5),
      rvSat = (\<lambda>p T c. 1 / 10)\<rparr>"

definition ex_conv_pT :: SurfaceToReservoirVoidage where
  "ex_conv_pT =
     \<lparr>this_props = ex_props_pT, this_rmap = ex_region,
      this_attr = [0 \<mapsto> \<lparr>value_attr = \<lparr>pressure = 0, temperature = 0, Rmax = (\<lambda>_. 0)\<rparr>,
                          value_cell = 0\<rparr>]\<rparr>"

definition ex_defined_pT :: SurfaceToReservoirVoidage where
  "ex_defined_pT =
     \<lparr>this_props = ex_props_pT, this_rmap = ex_region,
      this_attr = [0 \<mapsto> \<lparr>value_attr = \<lparr>pressure = 150, temperature = 300,
                                         Rmax = (\<lambda>_. 0)(1 := 3 / 5, 2 := 1 / 10)\<rparr>,
                          value_cell = 0\<rparr>]\<rparr>"

subsection \<open>An assembled well\<close>

text \<open>
  The blocks of an assembled well with \<open>nw\<close> well unknowns and \<open>nr\<close> reservoir unknowns:
  the dimensions fit and \<open>invDuneD\<close> is the inverse of \<open>duneD\<close> on both sides.
\<close>

definition assembled :: "nat \<Rightarrow> nat \<Rightarrow> MultisegmentWell \<Rightarrow> bool" where
  "assembled nw nr w =
     (mat_dims nw nr (duneB w) \<and> mat_dims nr nw (duneC w) \<and>
      mat_dims nw nw (duneD w) \<and> mat_dims nw nw (invDuneD w) \<and>
      length (resWell w) = nw \<and>
      mat_mul nw (duneD w) (invDuneD w) = one_mat nw \<and>
      mat_mul nw (invDuneD w) (duneD w) = one_mat nw)"

text \<open>
  A well with two well unknowns and three reservoir unknowns, and the two tags of the
  configurations without polymer.
\<close>

definition ex_well :: MultisegmentWell where
  "ex_well = \<lparr>duneB = [[1, 0, 2], [0, 1, 1]],
              duneC = [[1, 0], [0, 1], [1, 1]],
              duneD = [[2, 1], [1, 1]],
              invDuneD = [[1, - 1], [- 1, 2]],
              resWell = [5, 3]\<rparr>"

definition ex_tag :: "int \<Rightarrow> int \<Rightarrow> TypeTag" where
  "ex_tag n c = \<lparr>numEq = n, compositionSwitchIdx = c, EnablePolymer = False\<rparr>"

section \<open>Properties of the rate converter\<close>

subsection \<open>The region table\<close>

lemma RegionAttributes_insert_dom:
  "RegionAttributes_insert rmap attr m regs = Inr m' \<Longrightarrow> dom m' = dom m \<union> set regs"
proof (induction regs arbitrary: m)
  case Nil
  then show ?case by simp
next
  case (Cons r regs)
  show ?case
  proof (cases "m r")
    case None
    with Cons.prems obtain c cs where c: "cells rmap r = c # cs"
      by (cases "cells rmap r") auto
    with None Cons.prems
    have "RegionAttributes_insert rmap attr (m(r \<mapsto> (Value_ctor attr)\<lparr>value_cell := int c\<rparr>)) regs = Inr m'"
      by simp
    from Cons.IH [OF this] show ?thesis by auto
  next
    case (Some v)
    with Cons.prems have "RegionAttributes_insert rmap attr m regs = Inr m'" by simp
    from Cons.IH [OF this] Some show ?thesis by auto
  qed
qed

lemma RegionAttributes_insert_cells:
  "RegionAttributes_insert rmap attr m regs = Inr m' \<Longrightarrow> r \<in> set regs \<Longrightarrow> r \<notin> dom m \<Longrightarrow> cells rmap r \<noteq> []"
proof (induction regs arbitrary: m)
  case Nil
  then show ?case by simp
next
  case (Cons a regs)
  show ?case
  proof (cases "m a")
    case None
    with Cons.prems obtain c cs where c: "cells rmap a = c # cs"
      by (cases "cells rmap a") auto
    with None Cons.prems
    have ins: "RegionAttributes_insert rmap attr (m(a \<mapsto> (Value_ctor attr)\<lparr>value_cell := int c\<rparr>)) regs = Inr m'"
      by simp
    show ?thesis
    proof (cases "r = a")
      case True
      with c show ?thesis by simp
    next
      case False
      with Cons.prems have "r \<in> set regs" "r \<notin> dom (m(a \<mapsto> (Value_ctor attr)\<lparr>value_cell := int c\<rparr>))"
        by auto
      from Cons.IH [OF ins this] show ?thesis .
    qed
  next
    case (Some v)
    with Cons.prems have ins: "RegionAttributes_insert rmap attr m regs = Inr m'" by simp
    from Some Cons.prems have "r \<noteq> a" by auto
    with Cons.prems have "r \<in> set regs" by simp
    from Cons.IH [OF ins this Cons.prems(3)] show ?thesis .
  qed
qed

lemma RegionAttributes_insert_attr:
  "RegionAttributes_insert rmap attr m regs = Inr m' \<Longrightarrow> m' r = Some v \<Longrightarrow>
     m r = Some v \<or> value_attr v = attr"
proof (induction regs arbitrary: m)
  case Nil
  then show ?case by simp
next
  case (Cons a regs)
  show ?case
  proof (cases "m a")
    case None
    with Cons.prems obtain c cs where c: "cells rmap a = c # cs"
      by (cases "cells rmap a") auto
    with None Cons.prems
    have ins: "RegionAttributes_insert rmap attr (m(a \<mapsto> (Value_ctor attr)\<lparr>value_cell := int c\<rparr>)) regs = Inr m'"
      by simp
    from Cons.IH [OF ins Cons.prems(2)] show ?thesis
      by (auto simp: Value_ctor_def split: if_splits)
  next
    case (Some w)
    with Cons.prems have ins: "RegionAttributes_insert rmap attr m regs = Inr m'" by simp
    from Cons.IH [OF ins Cons.prems(2)] show ?thesis .
  qed
qed

lemma ctor_inv:
  assumes "SurfaceToReservoirVoidage_ctor props region = Inr conv"
  shows "converter_inv props region conv"
proof -
  from assms obtain m where
    m: "RegionAttributes_insert region (Attributes_ctor (numPhases props)) Map.empty (activeRegions region) = Inr m"
    and conv: "conv = \<lparr>this_props = props, this_rmap = region, this_attr = m\<rparr>"
    by (auto simp: SurfaceToReservoirVoidage_ctor_def RegionAttributes_ctor_def split: sum.splits)
  have d: "dom m = set (activeRegions region)"
    using RegionAttributes_insert_dom [OF m] by simp
  have c: "\<forall>r \<in> set (activeRegions region). cells region r \<noteq> []"
    using RegionAttributes_insert_cells [OF m] by auto
  have z: "\<forall>r v. m r = Some v \<longrightarrow> Rmax (value_attr v) = (\<lambda>_. 0)"
    using RegionAttributes_insert_attr [OF m] by (auto simp: Attributes_ctor_def)
  from d c z conv show ?thesis by (simp add: converter_inv_def)
qed

lemma calcAverages_cells_sum:
  "calcAverages_cells press temp own cs (p, T, n) =
     (p + sum_list (map press cs), T + sum_list (map temp cs), n + length cs)"
  by (induction cs arbitrary: p T n) (simp_all add: AverageIncrementCalculator_false_def)

lemma averaged_idem: "averaged state region r (averaged state region r v) = averaged state region r v"
  by (simp add: averaged_def)

lemma saturated_idem: "saturated props io ig (saturated props io ig v) = saturated props io ig v"
  by (simp add: saturated_def)

lemma calcAverages_region_eq:
  assumes "this_attr conv reg = Some v"
  shows "calcAverages_region conv state own reg =
           (Returned, conv\<lparr>this_attr := (this_attr conv)(reg \<mapsto> averaged state (this_rmap conv) reg v)\<rparr>)"
  using assms
  by (simp add: calcAverages_region_def attributes_rw_def RegionAttributes_find_def
      calcAverages_cells_sum averaged_def)

lemma calcAverages_regions_eq:
  "set regs \<subseteq> dom (this_attr conv) \<Longrightarrow>
   calcAverages_regions conv state own regs =
     (Returned, conv\<lparr>this_attr := (\<lambda>r. if r \<in> set regs
                                          then map_option (averaged state (this_rmap conv) r) (this_attr conv r)
                                          else this_attr conv r)\<rparr>)"
proof (induction regs arbitrary: conv)
  case Nil
  then show ?case by simp
next
  case (Cons reg regs)
  then obtain v where v: "this_attr conv reg = Some v" by auto
  let ?conv1 = "conv\<lparr>this_attr := (this_attr conv)(reg \<mapsto> averaged state (this_rmap conv) reg v)\<rparr>"
  have sub: "set regs \<subseteq> dom (this_attr ?conv1)" using Cons.prems by auto
  have "calcAverages_regions conv state own (reg # regs) = calcAverages_regions ?conv1 state own regs"
    by (simp add: calcAverages_region_eq [OF v])
  also have "\<dots> = (Returned, ?conv1\<lparr>this_attr := (\<lambda>r. if r \<in> set regs
                                          then map_option (averaged state (this_rmap ?conv1) r) (this_attr ?conv1 r)
                                          else this_attr ?conv1 r)\<rparr>)"
    by (rule Cons.IH [OF sub])
  also have "\<dots> = (Returned, conv\<lparr>this_attr := (\<lambda>r. if r \<in> set (reg # regs)
                                          then map_option (averaged state (this_rmap conv) r) (this_attr conv r)
                                          else this_attr conv r)\<rparr>)"
    using v by (auto simp: fun_eq_iff averaged_idem)
  finally show ?case .
qed

lemma calcRmax_region_eq:
  assumes "this_attr conv reg = Some v"
  shows "calcRmax_region conv io ig reg =
           (Returned, conv\<lparr>this_attr := (this_attr conv)(reg \<mapsto> saturated (this_props conv) io ig v)\<rparr>)"
  using assms
  by (simp add: calcRmax_region_def RegionAttributes_find_def getRegCell_def cell_def
      saturated_def Let_def)

lemma calcRmax_regions_eq:
  "set regs \<subseteq> dom (this_attr conv) \<Longrightarrow>
   calcRmax_regions conv io ig regs =
     (Returned, conv\<lparr>this_attr := (\<lambda>r. if r \<in> set regs
                                          then map_option (saturated (this_props conv) io ig) (this_attr conv r)
                                          else this_attr conv r)\<rparr>)"
proof (induction regs arbitrary: conv)
  case Nil
  then show ?case by simp
next
  case (Cons reg regs)
  then obtain v where v: "this_attr conv reg = Some v" by auto
  let ?conv1 = "conv\<lparr>this_attr := (this_attr conv)(reg \<mapsto> saturated (this_props conv) io ig v)\<rparr>"
  have sub: "set regs \<subseteq> dom (this_attr ?conv1)" using Cons.prems by auto
  have "calcRmax_regions conv io ig (reg # regs) = calcRmax_regions ?conv1 io ig regs"
    by (simp add: calcRmax_region_eq [OF v])
  also have "\<dots> = (Returned, ?conv1\<lparr>this_attr := (\<lambda>r. if r \<in> set regs
                                          then map_option (saturated (this_props ?conv1) io ig) (this_attr ?conv1 r)
                                          else this_attr ?conv1 r)\<rparr>)"
    by (rule Cons.IH [OF sub])
  also have "\<dots> = (Returned, conv\<lparr>this_attr := (\<lambda>r. if r \<in> set (reg # regs)
                                          then map_option (saturated (this_props conv) io ig) (this_attr conv r)
                                          else this_attr conv r)\<rparr>)"
    using v by (auto simp: fun_eq_iff saturated_idem)
  finally show ?case .
qed

lemma defineState_eq:
  assumes "converter_inv props region conv"
  shows "defineState conv state =
           (Returned, conv\<lparr>this_attr := (\<lambda>r. map_option (defined_value props region state r) (this_attr conv r))\<rparr>)"
proof -
  from assms have p: "this_props conv = props" and r: "this_rmap conv = region"
    and d: "dom (this_attr conv) = set (activeRegions region)"
    by (simp_all add: converter_inv_def)
  have dn: "\<And>x. x \<notin> set (activeRegions region) \<Longrightarrow> this_attr conv x = None"
    using d by auto
  let ?conv1 = "conv\<lparr>this_attr := (\<lambda>x. map_option (averaged state region x) (this_attr conv x))\<rparr>"
  have a: "calcAverages_false conv state (\<lambda>_. 0) = (Returned, ?conv1)"
    unfolding calcAverages_false_def
    using calcAverages_regions_eq [of "activeRegions (this_rmap conv)" conv state "\<lambda>_. 0"] d r
    by (auto simp: fun_eq_iff dn intro!: arg_cong [where f = "\<lambda>f. conv\<lparr>this_attr := f\<rparr>"])
  have d1: "set (activeRegions (this_rmap ?conv1)) \<subseteq> dom (this_attr ?conv1)"
    using d r by (auto simp: dom_def)
  show ?thesis
  proof (cases "PhaseUsed_oil (phaseUsage props) \<and> PhaseUsed_gas (phaseUsage props)")
    case True
    then have dv: "\<And>x. defined_value props region state x =
        (\<lambda>v. saturated props (PhasePos_oil (phaseUsage props)) (PhasePos_gas (phaseUsage props))
               (averaged state region x v))"
      by (simp add: defined_value_def fun_eq_iff)
    have "calcRmax ?conv1 =
        (Returned, ?conv1\<lparr>this_attr := (\<lambda>x. if x \<in> set (activeRegions (this_rmap ?conv1))
             then map_option (saturated (this_props ?conv1) (PhasePos_oil (phaseUsage props))
                    (PhasePos_gas (phaseUsage props))) (this_attr ?conv1 x)
             else this_attr ?conv1 x)\<rparr>)"
      using True calcRmax_regions_eq [OF d1, of "PhasePos_oil (phaseUsage props)" "PhasePos_gas (phaseUsage props)"] p
      by (simp add: calcRmax_def Let_def)
    also have "\<dots> = (Returned, conv\<lparr>this_attr :=
        (\<lambda>x. map_option (defined_value props region state x) (this_attr conv x))\<rparr>)"
      using p r by (auto simp: fun_eq_iff dn dv option.map_comp comp_def)
    finally show ?thesis by (simp add: defineState_def a)
  next
    case False
    then have dv: "\<And>x. defined_value props region state x = averaged state region x"
      by (auto simp: defined_value_def fun_eq_iff)
    from False show ?thesis
      using p by (auto simp: defineState_def a calcRmax_def Let_def dv)
  qed
qed

lemma defineState_inv:
  assumes "converter_inv props region conv" and "defineState conv state = (out, conv')"
  shows "converter_inv props region conv'"
proof -
  from defineState_eq [OF assms(1), of state] assms(2)
  have c: "conv' = conv\<lparr>this_attr := (\<lambda>r. map_option (defined_value props region state r) (this_attr conv r))\<rparr>"
    by simp
  from assms(1) show ?thesis
    unfolding c converter_inv_def
    by (auto simp: dom_def defined_value_def averaged_def)
qed

lemma reachable_inv: "reachable props region conv \<Longrightarrow> converter_inv props region conv"
  by (induction rule: reachable.induct) (auto intro: ctor_inv defineState_inv)

lemma ex_ctor: "SurfaceToReservoirVoidage_ctor (ex_props a b) ex_region = Inr (ex_conv a b)"
  by (simp add: SurfaceToReservoirVoidage_ctor_def RegionAttributes_ctor_def ex_region_def
      ex_conv_def Attributes_ctor_def Value_ctor_def)

lemma ex_defineState: "defineState (ex_conv a b) ex_state = (Returned, ex_defined a b)"
  by (simp add: defineState_def calcAverages_false_def calcAverages_region_def attributes_rw_def
      RegionAttributes_find_def AverageIncrementCalculator_false_def calcRmax_def
      calcRmax_region_def getRegCell_def cell_def Let_def
      ex_conv_def ex_defined_def ex_region_def ex_state_def ex_props_def ex_pu_def
      PhaseUsed_oil_def PhaseUsed_gas_def PhasePos_oil_def PhasePos_gas_def)

lemma ex_reachable: "reachable (ex_props a b) ex_region (ex_defined a b)"
  by (rule reachable.state_defined [OF reachable.constructed [OF ex_ctor] ex_defineState])

lemma calcMiscibility_known:
  assumes "attributes (this_attr conv) r = Inr ra"
  shows "\<exists>m. calcMiscibility conv inp r = Inr m \<and>
           rs m = (if PhaseUsed_oil (phaseUsage (this_props conv)) \<and> PhaseUsed_gas (phaseUsage (this_props conv))
                   then min (if inp (PhasePos_oil (phaseUsage (this_props conv))) \<noteq> 0
                             then inp (PhasePos_gas (phaseUsage (this_props conv))) /
                                  inp (PhasePos_oil (phaseUsage (this_props conv)))
                             else if inp (PhasePos_gas (phaseUsage (this_props conv))) \<noteq> 0
                                  then Rmax ra (PhasePos_oil (phaseUsage (this_props conv))) else 0)
                            (Rmax ra (PhasePos_oil (phaseUsage (this_props conv))))
                   else 0) \<and>
           rv m = (if PhaseUsed_oil (phaseUsage (this_props conv)) \<and> PhaseUsed_gas (phaseUsage (this_props conv))
                   then min (if inp (PhasePos_gas (phaseUsage (this_props conv))) \<noteq> 0
                             then inp (PhasePos_oil (phaseUsage (this_props conv))) /
                                  inp (PhasePos_gas (phaseUsage (this_props conv)))
                             else if inp (PhasePos_oil (phaseUsage (this_props conv))) \<noteq> 0
                                  then Rmax ra (PhasePos_gas (phaseUsage (this_props conv))) else 0)
                            (Rmax ra (PhasePos_gas (phaseUsage (this_props conv))))
                   else 0)"
  using assms
  by (simp add: calcMiscibility_def Let_def fdiv_def Miscibility_ctor_def)

lemma reachable_known:
  assumes "reachable props region conv" and "r \<in> set (activeRegions region)"
  shows "\<exists>v. this_attr conv r = Some v"
  using reachable_inv [OF assms(1)] assms(2) by (auto simp: converter_inv_def)

lemma reachable_unknown:
  assumes "reachable props region conv" and "r \<notin> set (activeRegions region)"
  shows "this_attr conv r = None"
  using reachable_inv [OF assms(1)] assms(2) by (auto simp: converter_inv_def)

subsection \<open>The miscibility ratios are capped\<close>

text \<open>
  C3. For every tuple of surface rates and every known region of a converter the code can
  hold, \<^verbatim>\<open>calcMiscibility\<close> returns, the dissolved gas-oil ratio \<open>rs\<close> is at most the
  region's Rs maximum \<open>Rmax(io)\<close>, and the vaporised oil-gas ratio \<open>rv\<close> is at most the
  region's Rv maximum \<open>Rmax(ig)\<close>. Unless oil and gas are both active the source computes
  neither a ratio nor a maximum: the ratios are 0 and every entry of \<open>Rmax\<close> is 0.
\<close>
theorem miscibility_ratios_capped:
  assumes "reachable props region conv" and "r \<in> set (activeRegions region)"
  shows "\<exists>ra m. attributes (this_attr conv) r = Inr ra \<and> calcMiscibility conv inp r = Inr m \<and>
           rs m \<le> Rmax ra (PhasePos_oil (phaseUsage props)) \<and>
           rv m \<le> Rmax ra (PhasePos_gas (phaseUsage props)) \<and>
           (\<not> (PhaseUsed_oil (phaseUsage props) \<and> PhaseUsed_gas (phaseUsage props)) \<longrightarrow>
              rs m = 0 \<and> rv m = 0 \<and> (\<forall>i. Rmax ra i = 0))"
proof -
  from reachable_known [OF assms] obtain v where v: "this_attr conv r = Some v" ..
  then have a: "attributes (this_attr conv) r = Inr (value_attr v)"
    by (simp add: attributes_def RegionAttributes_find_def)
  from reachable_inv [OF assms(1)] have p: "this_props conv = props"
    and z: "\<not> (PhaseUsed_oil (phaseUsage props) \<and> PhaseUsed_gas (phaseUsage props)) \<Longrightarrow>
              Rmax (value_attr v) = (\<lambda>_. 0)"
    using v by (auto simp: converter_inv_def)
  from calcMiscibility_known [OF a, of inp] obtain m where
    m: "calcMiscibility conv inp r = Inr m"
    and rs: "rs m = (if PhaseUsed_oil (phaseUsage props) \<and> PhaseUsed_gas (phaseUsage props)
                   then min (if inp (PhasePos_oil (phaseUsage props)) \<noteq> 0
                             then inp (PhasePos_gas (phaseUsage props)) /
                                  inp (PhasePos_oil (phaseUsage props))
                             else if inp (PhasePos_gas (phaseUsage props)) \<noteq> 0
                                  then Rmax (value_attr v) (PhasePos_oil (phaseUsage props)) else 0)
                            (Rmax (value_attr v) (PhasePos_oil (phaseUsage props)))
                   else 0)"
    and rv: "rv m = (if PhaseUsed_oil (phaseUsage props) \<and> PhaseUsed_gas (phaseUsage props)
                   then min (if inp (PhasePos_gas (phaseUsage props)) \<noteq> 0
                             then inp (PhasePos_oil (phaseUsage props)) /
                                  inp (PhasePos_gas (phaseUsage props))
                             else if inp (PhasePos_oil (phaseUsage props)) \<noteq> 0
                                  then Rmax (value_attr v) (PhasePos_gas (phaseUsage props)) else 0)
                            (Rmax (value_attr v) (PhasePos_gas (phaseUsage props)))
                   else 0)"
    unfolding p by blast
  have "rs m \<le> Rmax (value_attr v) (PhasePos_oil (phaseUsage props))"
  proof (cases "PhaseUsed_oil (phaseUsage props) \<and> PhaseUsed_gas (phaseUsage props)")
    case True
    then show ?thesis unfolding rs by simp
  next
    case False
    then show ?thesis unfolding rs using z by auto
  qed
  moreover have "rv m \<le> Rmax (value_attr v) (PhasePos_gas (phaseUsage props))"
  proof (cases "PhaseUsed_oil (phaseUsage props) \<and> PhaseUsed_gas (phaseUsage props)")
    case True
    then show ?thesis unfolding rv by simp
  next
    case False
    then show ?thesis unfolding rv using z by auto
  qed
  moreover have "\<not> (PhaseUsed_oil (phaseUsage props) \<and> PhaseUsed_gas (phaseUsage props)) \<longrightarrow>
              rs m = 0 \<and> rv m = 0 \<and> (\<forall>i. Rmax (value_attr v) i = 0)"
    unfolding rs rv using z by auto
  ultimately show ?thesis using a m by blast
qed

lemma ex_attributes:
  "attributes (this_attr (ex_defined a b)) 0 =
     Inr \<lparr>pressure = 150, temperature = 300, Rmax = (\<lambda>_. 0)(1 := a, 2 := b)\<rparr>"
  by (simp add: attributes_def RegionAttributes_find_def ex_defined_def)

lemma ex_used:
  "PhaseUsed_water (phaseUsage (this_props (ex_defined a b)))"
  "PhaseUsed_oil (phaseUsage (this_props (ex_defined a b)))"
  "PhaseUsed_gas (phaseUsage (this_props (ex_defined a b)))"
  "PhasePos_water (phaseUsage (this_props (ex_defined a b))) = 0"
  "PhasePos_oil (phaseUsage (this_props (ex_defined a b))) = 1"
  "PhasePos_gas (phaseUsage (this_props (ex_defined a b))) = 2"
  by (simp_all add: ex_defined_def ex_props_def ex_pu_def PhaseUsed_water_def PhaseUsed_oil_def
      PhaseUsed_gas_def PhasePos_water_def PhasePos_oil_def PhasePos_gas_def)

lemma ex_miscibility:
  "calcMiscibility (ex_defined a b) ex_in 0 =
     Inr \<lparr>rs = min (1 / 2) a, rv = min 2 b,
          cond = \<lparr>free_water = True, free_oil = True, free_gas = a < 1 / 2\<rparr>\<rparr>"
  by (simp add: calcMiscibility_def Let_def fdiv_def Miscibility_ctor_def ex_attributes ex_used
      ex_in_def PhasePresence_ctor_def setFreeWater_def setFreeOil_def setFreeGas_def)

theorem miscibility_ratios_capped_witness:
  "reachable (ex_props (3 / 5) (1 / 10)) ex_region (ex_defined (3 / 5) (1 / 10)) \<and>
   0 \<in> set (activeRegions ex_region) \<and>
   (\<exists>ra m. attributes (this_attr (ex_defined (3 / 5) (1 / 10))) 0 = Inr ra \<and>
      calcMiscibility (ex_defined (3 / 5) (1 / 10)) ex_in 0 = Inr m \<and>
      rs m = 1 / 2 \<and> rv m = 1 / 10 \<and>
      rs m \<le> Rmax ra (PhasePos_oil (phaseUsage (ex_props (3 / 5) (1 / 10)))) \<and>
      rv m \<le> Rmax ra (PhasePos_gas (phaseUsage (ex_props (3 / 5) (1 / 10)))))"
proof -
  have r: "reachable (ex_props (3 / 5) (1 / 10)) ex_region (ex_defined (3 / 5) (1 / 10))"
    by (rule ex_reachable)
  have k: "0 \<in> set (activeRegions ex_region)" by (simp add: ex_region_def)
  from miscibility_ratios_capped [OF r k, of ex_in] r k show ?thesis
    by (auto simp: ex_miscibility ex_attributes)
qed

subsection \<open>Zero surface rates\<close>

text \<open>
  C10. For a known region with oil and gas both active, \<^verbatim>\<open>calcMiscibility\<close> returns for
  every input: no quotient is taken with a zero divisor. If the oil rate is zero, \<open>rs\<close> is
  the region's Rs maximum when the gas rate is not zero, and \<open>min 0 rsmax\<close> when it is zero
  too: that is 0 when the Rs maximum is not negative. Symmetrically, if the gas rate is zero,
  \<open>rv\<close> is the region's Rv maximum when the oil rate is not zero, and \<open>min 0 rvmax\<close>
  otherwise.
\<close>

theorem miscibility_zero_rates:
  assumes "attributes (this_attr conv) r = Inr ra"
    and "PhaseUsed_oil (phaseUsage (this_props conv))"
    and "PhaseUsed_gas (phaseUsage (this_props conv))"
    and "io = PhasePos_oil (phaseUsage (this_props conv))"
    and "ig = PhasePos_gas (phaseUsage (this_props conv))"
  shows "\<exists>m. calcMiscibility conv inp r = Inr m \<and>
           (inp io = 0 \<longrightarrow> rs m = (if inp ig \<noteq> 0 then Rmax ra io else min 0 (Rmax ra io))) \<and>
           (inp ig = 0 \<longrightarrow> rv m = (if inp io \<noteq> 0 then Rmax ra ig else min 0 (Rmax ra ig))) \<and>
           (inp io = 0 \<and> inp ig = 0 \<and> 0 \<le> Rmax ra io \<longrightarrow> rs m = 0) \<and>
           (inp io = 0 \<and> inp ig = 0 \<and> 0 \<le> Rmax ra ig \<longrightarrow> rv m = 0)"
proof -
  from calcMiscibility_known [OF assms(1), of inp] obtain m where
    "calcMiscibility conv inp r = Inr m"
    and "rs m = min (if inp io \<noteq> 0 then inp ig / inp io
                     else if inp ig \<noteq> 0 then Rmax ra io else 0) (Rmax ra io)"
    and "rv m = min (if inp ig \<noteq> 0 then inp io / inp ig
                     else if inp io \<noteq> 0 then Rmax ra ig else 0) (Rmax ra ig)"
    using assms(2,3) unfolding assms(4,5) by auto
  then show ?thesis by auto
qed

theorem miscibility_zero_rates_witness:
  "attributes (this_attr (ex_defined (3 / 5) (1 / 10))) 0 =
     Inr \<lparr>pressure = 150, temperature = 300, Rmax = (\<lambda>_. 0)(1 := 3 / 5, 2 := 1 / 10)\<rparr> \<and>
   PhaseUsed_oil (phaseUsage (this_props (ex_defined (3 / 5) (1 / 10)))) \<and>
   PhaseUsed_gas (phaseUsage (this_props (ex_defined (3 / 5) (1 / 10)))) \<and>
   (\<exists>m. calcMiscibility (ex_defined (3 / 5) (1 / 10)) (\<lambda>i. if i = 2 then 25 else 0) 0 = Inr m \<and>
        rs m = 3 / 5) \<and>
   (\<exists>m. calcMiscibility (ex_defined (3 / 5) (1 / 10)) (\<lambda>i. if i = 1 then 50 else 0) 0 = Inr m \<and>
        rv m = 1 / 10) \<and>
   (\<exists>m. calcMiscibility (ex_defined (3 / 5) (1 / 10)) (\<lambda>i. 0) 0 = Inr m \<and>
        rs m = 0 \<and> rv m = 0)"
proof -
  note h = ex_attributes [of "3 / 5" "1 / 10"] ex_used(2) [of "3 / 5" "1 / 10"]
    ex_used(3) [of "3 / 5" "1 / 10"] ex_used(5) [of "3 / 5" "1 / 10", symmetric]
    ex_used(6) [of "3 / 5" "1 / 10", symmetric]
  from miscibility_zero_rates [OF h, of "\<lambda>i. if i = 2 then 25 else 0"]
  have g: "\<exists>m. calcMiscibility (ex_defined (3 / 5) (1 / 10)) (\<lambda>i. if i = 2 then 25 else 0) 0 = Inr m \<and>
        rs m = 3 / 5"
    by auto
  from miscibility_zero_rates [OF h, of "\<lambda>i. if i = 1 then 50 else 0"]
  have o: "\<exists>m. calcMiscibility (ex_defined (3 / 5) (1 / 10)) (\<lambda>i. if i = 1 then 50 else 0) 0 = Inr m \<and>
        rv m = 1 / 10"
    by auto
  from miscibility_zero_rates [OF h, of "\<lambda>i. 0"]
  have z: "\<exists>m. calcMiscibility (ex_defined (3 / 5) (1 / 10)) (\<lambda>i. 0) 0 = Inr m \<and>
        rs m = 0 \<and> rv m = 0"
    by auto
  from g o z h(1-3) show ?thesis by blast
qed

text \<open>
  As the claim has it, \<open>rs\<close> would be 0 whenever both rates are zero. The source caps the 0
  by the maximum as it caps every other value, so a negative maximum comes back: here the
  saturation function of the property object returns \<open>-1\<close>.
\<close>

theorem miscibility_zero_rates_counterexample:
  "reachable (ex_props (- 1) (1 / 10)) ex_region (ex_defined (- 1) (1 / 10)) \<and>
   PhaseUsed_oil (phaseUsage (this_props (ex_defined (- 1) (1 / 10)))) \<and>
   PhaseUsed_gas (phaseUsage (this_props (ex_defined (- 1) (1 / 10)))) \<and>
   calcMiscibility (ex_defined (- 1) (1 / 10)) (\<lambda>i. 0) 0 =
     Inr \<lparr>rs = - 1, rv = 0, cond = \<lparr>free_water = True, free_oil = True, free_gas = True\<rparr>\<rparr>"
  by (simp add: calcMiscibility_def Let_def fdiv_def Miscibility_ctor_def ex_attributes ex_used
      ex_reachable PhasePresence_ctor_def setFreeWater_def setFreeOil_def setFreeGas_def)

subsection \<open>The miscibility example\<close>

text \<open>
  C2. In a known region with oil and gas both active, surface rates oil 50 and gas 25
  and Rs maximum 0.6, the dissolved gas-oil ratio is \<open>rs = min (25 / 50) 0.6 = 0.5\<close>, the
  vaporised oil-gas ratio is \<open>rv = min (50 / 25) rvmax\<close> for the region's Rv maximum
  \<open>rvmax\<close>, and the determinant \<open>det(R) = 1 - rs \<cdot> rv\<close> that \<^verbatim>\<open>calcCoeff\<close> divides by is
  positive exactly when \<open>rvmax < 2\<close>.
\<close>

theorem miscibility_example:
  assumes "attributes (this_attr conv) r = Inr ra"
    and "PhaseUsed_oil (phaseUsage (this_props conv))"
    and "PhaseUsed_gas (phaseUsage (this_props conv))"
    and "inp (PhasePos_oil (phaseUsage (this_props conv))) = 50"
    and "inp (PhasePos_gas (phaseUsage (this_props conv))) = 25"
    and "Rmax ra (PhasePos_oil (phaseUsage (this_props conv))) = 3 / 5"
    and "rvmax = Rmax ra (PhasePos_gas (phaseUsage (this_props conv)))"
  shows "\<exists>m. calcMiscibility conv inp r = Inr m \<and>
           rs m = min (25 / 50) (3 / 5) \<and> rs m = 1 / 2 \<and>
           rv m = min (50 / 25) rvmax \<and>
           detR m = 1 - rs m * rv m \<and>
           (0 < detR m \<longleftrightarrow> rvmax < 2)"
proof -
  from calcMiscibility_known [OF assms(1), of inp] obtain m where
    m: "calcMiscibility conv inp r = Inr m" and rs1: "rs m = min (25 / 50) (3 / 5)"
    and rv1: "rv m = min (50 / 25) rvmax"
    using assms(2-7) by auto
  have rs2: "rs m = 1 / 2" unfolding rs1 by simp
  have d: "detR m = 1 - rs m * rv m" by (simp only: detR_def)
  have "detR m = 1 - (1 / 2) * min 2 rvmax" unfolding d rs2 rv1 by simp
  then have p: "0 < detR m \<longleftrightarrow> rvmax < 2" by (simp add: min_def)
  from m rs1 rs2 rv1 d p show ?thesis by blast
qed

theorem miscibility_example_witness:
  "attributes (this_attr (ex_defined (3 / 5) (1 / 10))) 0 =
     Inr \<lparr>pressure = 150, temperature = 300, Rmax = (\<lambda>_. 0)(1 := 3 / 5, 2 := 1 / 10)\<rparr> \<and>
   PhaseUsed_oil (phaseUsage (this_props (ex_defined (3 / 5) (1 / 10)))) \<and>
   PhaseUsed_gas (phaseUsage (this_props (ex_defined (3 / 5) (1 / 10)))) \<and>
   ex_in (PhasePos_oil (phaseUsage (this_props (ex_defined (3 / 5) (1 / 10))))) = 50 \<and>
   ex_in (PhasePos_gas (phaseUsage (this_props (ex_defined (3 / 5) (1 / 10))))) = 25 \<and>
   (\<exists>m. calcMiscibility (ex_defined (3 / 5) (1 / 10)) ex_in 0 = Inr m \<and>
        rs m = 1 / 2 \<and> rv m = 1 / 10 \<and> detR m = 19 / 20 \<and> 0 < detR m)"
proof -
  have a: "attributes (this_attr (ex_defined (3 / 5) (1 / 10))) 0 =
     Inr \<lparr>pressure = 150, temperature = 300, Rmax = (\<lambda>_. 0)(1 := 3 / 5, 2 := 1 / 10)\<rparr>"
    by (rule ex_attributes)
  have i: "ex_in (PhasePos_oil (phaseUsage (this_props (ex_defined (3 / 5) (1 / 10))))) = 50"
    "ex_in (PhasePos_gas (phaseUsage (this_props (ex_defined (3 / 5) (1 / 10))))) = 25"
    by (simp_all add: ex_used ex_in_def)
  have x: "Rmax \<lparr>pressure = 150, temperature = 300, Rmax = (\<lambda>_. 0)(1 := 3 / 5, 2 := 1 / 10)\<rparr>
             (PhasePos_oil (phaseUsage (this_props (ex_defined (3 / 5) (1 / 10))))) = 3 / 5"
    by (simp add: ex_used)
  from miscibility_example [OF a ex_used(2) ex_used(3) i x refl]
  obtain m where m: "calcMiscibility (ex_defined (3 / 5) (1 / 10)) ex_in 0 = Inr m"
    and "rs m = 1 / 2" and "rv m = min (50 / 25) (1 / 10)" and "detR m = 1 - rs m * rv m"
    by (auto simp: ex_used)
  then have "rs m = 1 / 2 \<and> rv m = 1 / 10 \<and> detR m = 19 / 20 \<and> 0 < detR m"
    by (simp only:) simp
  with m a i ex_used(2) [of "3 / 5" "1 / 10"] ex_used(3) [of "3 / 5" "1 / 10"]
  show ?thesis by blast
qed

text \<open>
  The claim gives no Rv maximum and has the determinant positive. With an Rv maximum of 2
  the ratio \<open>rv\<close> is \<open>50 / 25 = 2\<close> and the determinant is 0.
\<close>

theorem miscibility_example_counterexample:
  "reachable (ex_props (3 / 5) 2) ex_region (ex_defined (3 / 5) 2) \<and>
   calcMiscibility (ex_defined (3 / 5) 2) ex_in 0 =
     Inr \<lparr>rs = 1 / 2, rv = 2, cond = \<lparr>free_water = True, free_oil = True, free_gas = False\<rparr>\<rparr> \<and>
   detR \<lparr>rs = 1 / 2, rv = 2, cond = \<lparr>free_water = True, free_oil = True, free_gas = False\<rparr>\<rparr> = 0"
  by (simp add: ex_miscibility detR_def ex_reachable)

subsection \<open>The water coefficient\<close>

lemma calcCoeff_water:
  assumes v: "this_attr conv r = Some v"
    and w: "PhaseUsed_water (phaseUsage (this_props conv))"
    and o: "PhaseUsed_oil (phaseUsage (this_props conv)) \<Longrightarrow>
              phase_pos (phaseUsage (this_props conv)) Liquid \<noteq> phase_pos (phaseUsage (this_props conv)) Aqua"
    and g: "PhaseUsed_gas (phaseUsage (this_props conv)) \<Longrightarrow>
              phase_pos (phaseUsage (this_props conv)) Vapour \<noteq> phase_pos (phaseUsage (this_props conv)) Aqua"
  shows "fst (calcCoeff conv inp r coeff) = Returned \<and>
         snd (calcCoeff conv inp r coeff) (PhasePos_water (phaseUsage (this_props conv))) =
           1 / bWat (this_props conv) (pressure (value_attr v)) (temperature (value_attr v)) (value_cell v)"
proof -
  have a: "attributes (this_attr conv) r = Inr (value_attr v)"
    and c: "getRegCell conv r = Inr (value_cell v)"
    using v by (simp_all add: attributes_def getRegCell_def cell_def RegionAttributes_find_def)
  from calcMiscibility_known [OF a, of inp] obtain m where m: "calcMiscibility conv inp r = Inr m"
    by blast
  show ?thesis
  proof (cases "PhaseUsed_oil (phaseUsage (this_props conv))")
    case oil: True
    note o1 = o [OF oil] o [OF oil, symmetric]
    show ?thesis
    proof (cases "PhaseUsed_gas (phaseUsage (this_props conv))")
      case gas: True
      note g1 = g [OF gas] g [OF gas, symmetric]
      from w oil gas o1 g1 show ?thesis
        by (simp add: calcCoeff_def a c m Let_def PhasePos_water_def PhasePos_oil_def PhasePos_gas_def)
    next
      case gas: False
      from w oil gas o1 show ?thesis
        by (simp add: calcCoeff_def a c m Let_def PhasePos_water_def PhasePos_oil_def PhasePos_gas_def)
    qed
  next
    case oil: False
    show ?thesis
    proof (cases "PhaseUsed_gas (phaseUsage (this_props conv))")
      case gas: True
      note g1 = g [OF gas] g [OF gas, symmetric]
      from w oil gas g1 show ?thesis
        by (simp add: calcCoeff_def a c m Let_def PhasePos_water_def PhasePos_oil_def PhasePos_gas_def)
    next
      case gas: False
      from w oil gas show ?thesis
        by (simp add: calcCoeff_def a c m Let_def PhasePos_water_def PhasePos_oil_def PhasePos_gas_def)
    qed
  qed
qed

text \<open>
  C5. When water is active and has a position of its own (no other active phase is at the
  position of water), \<^verbatim>\<open>calcCoeff\<close> returns for a known region, and the coefficient at the
  position of water is \<open>1 / bw\<close>, with \<open>bw\<close> the water formation volume factor at the stored
  pressure and temperature of the region and its representative cell. It is the same for
  any two tuples of surface rates (and whatever the output parameter held before).
\<close>

theorem water_coefficient_independent_of_rates:
  assumes "this_attr conv r = Some v"
    and "PhaseUsed_water (phaseUsage (this_props conv))"
    and "PhaseUsed_oil (phaseUsage (this_props conv)) \<longrightarrow>
           phase_pos (phaseUsage (this_props conv)) Liquid \<noteq> phase_pos (phaseUsage (this_props conv)) Aqua"
    and "PhaseUsed_gas (phaseUsage (this_props conv)) \<longrightarrow>
           phase_pos (phaseUsage (this_props conv)) Vapour \<noteq> phase_pos (phaseUsage (this_props conv)) Aqua"
    and "iw = PhasePos_water (phaseUsage (this_props conv))"
  shows "fst (calcCoeff conv in1 r coeff1) = Returned \<and>
         fst (calcCoeff conv in2 r coeff2) = Returned \<and>
         snd (calcCoeff conv in1 r coeff1) iw =
           1 / bWat (this_props conv) (pressure (value_attr v)) (temperature (value_attr v)) (value_cell v) \<and>
         snd (calcCoeff conv in2 r coeff2) iw = snd (calcCoeff conv in1 r coeff1) iw"
  using calcCoeff_water [of conv r v in1 coeff1] calcCoeff_water [of conv r v in2 coeff2] assms
  by simp

lemma ex_value:
  "this_attr (ex_defined a b) 0 =
     Some \<lparr>value_attr = \<lparr>pressure = 150, temperature = 300, Rmax = (\<lambda>_. 0)(1 := a, 2 := b)\<rparr>,
           value_cell = 0\<rparr>"
  by (simp add: ex_defined_def)

lemma ex_positions:
  "phase_pos (phaseUsage (this_props (ex_defined a b))) Liquid \<noteq>
     phase_pos (phaseUsage (this_props (ex_defined a b))) Aqua"
  "phase_pos (phaseUsage (this_props (ex_defined a b))) Vapour \<noteq>
     phase_pos (phaseUsage (this_props (ex_defined a b))) Aqua"
  by (simp_all add: ex_defined_def ex_props_def ex_pu_def)

theorem water_coefficient_independent_of_rates_witness:
  "this_attr (ex_defined (3 / 5) (1 / 10)) 0 =
     Some \<lparr>value_attr = \<lparr>pressure = 150, temperature = 300,
                          Rmax = (\<lambda>_. 0)(1 := 3 / 5, 2 := 1 / 10)\<rparr>,
           value_cell = 0\<rparr> \<and>
   PhaseUsed_water (phaseUsage (this_props (ex_defined (3 / 5) (1 / 10)))) \<and>
   phase_pos (phaseUsage (this_props (ex_defined (3 / 5) (1 / 10)))) Liquid \<noteq>
     phase_pos (phaseUsage (this_props (ex_defined (3 / 5) (1 / 10)))) Aqua \<and>
   phase_pos (phaseUsage (this_props (ex_defined (3 / 5) (1 / 10)))) Vapour \<noteq>
     phase_pos (phaseUsage (this_props (ex_defined (3 / 5) (1 / 10)))) Aqua \<and>
   snd (calcCoeff (ex_defined (3 / 5) (1 / 10)) ex_in 0 (\<lambda>_. 7)) 0 = 2 / 3 \<and>
   snd (calcCoeff (ex_defined (3 / 5) (1 / 10)) (\<lambda>_. 1) 0 (\<lambda>_. 9)) 0 = 2 / 3"
proof -
  note h = ex_value [of "3 / 5" "1 / 10"] ex_used(1) [of "3 / 5" "1 / 10"]
  have p: "PhaseUsed_oil (phaseUsage (this_props (ex_defined (3 / 5) (1 / 10)))) \<longrightarrow>
      phase_pos (phaseUsage (this_props (ex_defined (3 / 5) (1 / 10)))) Liquid \<noteq>
      phase_pos (phaseUsage (this_props (ex_defined (3 / 5) (1 / 10)))) Aqua"
    "PhaseUsed_gas (phaseUsage (this_props (ex_defined (3 / 5) (1 / 10)))) \<longrightarrow>
      phase_pos (phaseUsage (this_props (ex_defined (3 / 5) (1 / 10)))) Vapour \<noteq>
      phase_pos (phaseUsage (this_props (ex_defined (3 / 5) (1 / 10)))) Aqua"
    using ex_positions by simp_all
  have b: "1 / bWat (this_props (ex_defined (3 / 5) (1 / 10))) 150 300 0 = 2 / 3"
    by (simp add: ex_defined_def ex_props_def)
  from water_coefficient_independent_of_rates
         [OF h p ex_used(4) [symmetric], of ex_in "\<lambda>_. 7" "\<lambda>_. 1" "\<lambda>_. 9"]
  have "snd (calcCoeff (ex_defined (3 / 5) (1 / 10)) ex_in 0 (\<lambda>_. 7)) 0 = 2 / 3 \<and>
        snd (calcCoeff (ex_defined (3 / 5) (1 / 10)) (\<lambda>_. 1) 0 (\<lambda>_. 9)) 0 = 2 / 3"
    using b by simp
  with h ex_positions [of "3 / 5" "1 / 10"] show ?thesis by blast
qed

subsection \<open>The region averages\<close>

lemma calcMiscibility_props:
  "phaseUsage props2 = phaseUsage (this_props conv) \<Longrightarrow>
   calcMiscibility (conv\<lparr>this_props := props2\<rparr>) inp r = calcMiscibility conv inp r"
  by (simp add: calcMiscibility_def)

lemma calcCoeff_props:
  assumes "attributes (this_attr conv) r = Inr ra"
    and "phaseUsage props2 = phaseUsage (this_props conv)"
    and "numPhases props2 = numPhases (this_props conv)"
    and "\<forall>c. bWat props2 (pressure ra) (temperature ra) c = bWat (this_props conv) (pressure ra) (temperature ra) c"
    and "\<forall>x cnd c. bOil props2 (pressure ra) (temperature ra) x cnd c =
                    bOil (this_props conv) (pressure ra) (temperature ra) x cnd c"
    and "\<forall>x cnd c. bGas props2 (pressure ra) (temperature ra) x cnd c =
                    bGas (this_props conv) (pressure ra) (temperature ra) x cnd c"
  shows "calcCoeff (conv\<lparr>this_props := props2\<rparr>) inp r coeff = calcCoeff conv inp r coeff"
  using assms
  by (simp add: calcCoeff_def calcMiscibility_props getRegCell_def
      cong: sum.case_cong if_cong split del: if_split)

lemma defined_value_averages:
  "pressure (value_attr (defined_value props region state r v)) =
     sum_list (map (state_pressure state) (cells region r)) / real (length (cells region r))"
  "temperature (value_attr (defined_value props region state r v)) =
     sum_list (map (state_temperature state) (cells region r)) / real (length (cells region r))"
  by (simp_all add: defined_value_def saturated_def averaged_def)

lemma calcCoeff_entries:
  assumes v: "this_attr conv r = Some v"
    and wf: "PhaseUsage_wf (phaseUsage (this_props conv)) (numPhases (this_props conv))"
    and m: "calcMiscibility conv inp r = Inr m"
  shows "\<exists>cf. calcCoeff conv inp r coeff = (Returned, cf) \<and>
           (PhaseUsed_water (phaseUsage (this_props conv)) \<longrightarrow>
              cf (PhasePos_water (phaseUsage (this_props conv))) =
                1 / bWat (this_props conv) (pressure (value_attr v)) (temperature (value_attr v))
                      (value_cell v)) \<and>
           (PhaseUsed_oil (phaseUsage (this_props conv)) \<longrightarrow>
              cf (PhasePos_oil (phaseUsage (this_props conv))) =
                1 / (bOil (this_props conv) (pressure (value_attr v)) (temperature (value_attr v))
                       (rs m) (cond m) (value_cell v) * detR m) -
                (if PhaseUsed_gas (phaseUsage (this_props conv))
                 then rs m / (bGas (this_props conv) (pressure (value_attr v))
                                (temperature (value_attr v)) (rv m) (cond m) (value_cell v) * detR m)
                 else 0)) \<and>
           (PhaseUsed_gas (phaseUsage (this_props conv)) \<longrightarrow>
              cf (PhasePos_gas (phaseUsage (this_props conv))) =
                1 / (bGas (this_props conv) (pressure (value_attr v)) (temperature (value_attr v))
                       (rv m) (cond m) (value_cell v) * detR m) -
                (if PhaseUsed_oil (phaseUsage (this_props conv))
                 then rv m / (bOil (this_props conv) (pressure (value_attr v))
                                (temperature (value_attr v)) (rs m) (cond m) (value_cell v) * detR m)
                 else 0))"
proof -
  have a: "attributes (this_attr conv) r = Inr (value_attr v)"
    and c: "getRegCell conv r = Inr (value_cell v)"
    using v by (simp_all add: attributes_def getRegCell_def cell_def RegionAttributes_find_def)
  from wf show ?thesis
    by (cases "PhaseUsed_water (phaseUsage (this_props conv))";
        cases "PhaseUsed_oil (phaseUsage (this_props conv))";
        cases "PhaseUsed_gas (phaseUsage (this_props conv))";
        auto simp: calcCoeff_def a c m Let_def PhasePos_water_def PhasePos_oil_def
          PhasePos_gas_def PhaseUsage_wf_def)
qed

lemma ex_pT_ctor: "SurfaceToReservoirVoidage_ctor ex_props_pT ex_region = Inr ex_conv_pT"
  by (simp add: SurfaceToReservoirVoidage_ctor_def RegionAttributes_ctor_def ex_region_def
      ex_conv_pT_def Attributes_ctor_def Value_ctor_def)

lemma ex_pT_defineState: "defineState ex_conv_pT ex_state = (Returned, ex_defined_pT)"
  by (simp add: defineState_def calcAverages_false_def calcAverages_region_def attributes_rw_def
      RegionAttributes_find_def AverageIncrementCalculator_false_def calcRmax_def
      calcRmax_region_def getRegCell_def cell_def Let_def
      ex_conv_pT_def ex_defined_pT_def ex_region_def ex_state_def ex_props_pT_def ex_pu_def
      PhaseUsed_oil_def PhaseUsed_gas_def PhasePos_oil_def PhasePos_gas_def)

lemma ex_pT_used:
  "phaseUsage ex_props_pT = ex_pu" "numPhases ex_props_pT = 3"
  "PhaseUsed_water ex_pu" "PhaseUsed_oil ex_pu" "PhaseUsed_gas ex_pu"
  "PhasePos_water ex_pu = 0" "PhasePos_oil ex_pu = 1" "PhasePos_gas ex_pu = 2"
  "this_props ex_defined_pT = ex_props_pT"
  by (simp_all add: ex_defined_pT_def ex_props_pT_def ex_pu_def PhaseUsed_water_def
      PhaseUsed_oil_def PhaseUsed_gas_def PhasePos_water_def PhasePos_oil_def PhasePos_gas_def)

lemma ex_pT_wf: "PhaseUsage_wf ex_pu 3"
  by (simp add: PhaseUsage_wf_def ex_pu_def)

lemma ex_pT_cell: "getRegCell ex_defined_pT 0 = Inr 0"
  by (simp add: getRegCell_def cell_def RegionAttributes_find_def ex_defined_pT_def)

lemma ex_pT_attributes:
  "attributes (this_attr ex_defined_pT) 0 =
     Inr \<lparr>pressure = 150, temperature = 300, Rmax = (\<lambda>_. 0)(1 := 3 / 5, 2 := 1 / 10)\<rparr>"
  by (simp add: attributes_def RegionAttributes_find_def ex_defined_pT_def)

lemma ex_pT_miscibility:
  "calcMiscibility ex_defined_pT ex_in 0 =
     Inr \<lparr>rs = 1 / 2, rv = 1 / 10,
          cond = \<lparr>free_water = True, free_oil = True, free_gas = False\<rparr>\<rparr>"
  by (simp add: calcMiscibility_def Let_def fdiv_def Miscibility_ctor_def ex_pT_attributes ex_pT_used
      ex_in_def PhasePresence_ctor_def setFreeWater_def setFreeOil_def setFreeGas_def)

text \<open>
  C7. For every active region, \<^verbatim>\<open>defineState\<close> returns and leaves as the region's pressure
  and temperature the arithmetic means \<open>pbar\<close> and \<open>Tbar\<close> of the cell pressures and the cell
  temperatures over the cells of the region, each entry of the region's cell list counted
  once. These are the values at which \<^verbatim>\<open>calcCoeff\<close> evaluates the fluid properties: it
  returns for every input, and for a well-formed phase usage the coefficient of water is
  \<open>1 / bw(pbar, Tbar)\<close>, that of oil is \<open>1 / (bo(pbar, Tbar, rs) \<cdot> det R)\<close> less
  \<open>rs / (bg(pbar, Tbar, rv) \<cdot> det R)\<close> when gas is active, and that of gas is
  \<open>1 / (bg(pbar, Tbar, rv) \<cdot> det R)\<close> less \<open>rv / (bo(pbar, Tbar, rs) \<cdot> det R)\<close> when oil is
  active, all at the representative cell of the region. Moreover a property object that
  agrees with the converter's at the two averages gives the same coefficients.
\<close>

theorem defineState_region_averages:
  assumes "reachable props region conv" and "r \<in> set (activeRegions region)"
    and "pbar = sum_list (map (state_pressure state) (cells region r)) /
                  real (length (cells region r))"
    and "Tbar = sum_list (map (state_temperature state) (cells region r)) /
                  real (length (cells region r))"
    and "pu = phaseUsage props"
  shows "\<exists>conv' ra c. defineState conv state = (Returned, conv') \<and>
           attributes (this_attr conv') r = Inr ra \<and>
           cells region r \<noteq> [] \<and>
           pressure ra = sum_list (map (state_pressure state) (cells region r)) /
                         real (length (cells region r)) \<and>
           temperature ra = sum_list (map (state_temperature state) (cells region r)) /
                            real (length (cells region r)) \<and>
           getRegCell conv' r = Inr c \<and>
           (\<forall>inp coeff. \<exists>m cf.
              calcMiscibility conv' inp r = Inr m \<and>
              calcCoeff conv' inp r coeff = (Returned, cf) \<and>
              (PhaseUsage_wf pu (numPhases props) \<longrightarrow>
                 (PhaseUsed_water pu \<longrightarrow> cf (PhasePos_water pu) = 1 / bWat props pbar Tbar c) \<and>
                 (PhaseUsed_oil pu \<longrightarrow>
                    cf (PhasePos_oil pu) =
                      1 / (bOil props pbar Tbar (rs m) (cond m) c * detR m) -
                      (if PhaseUsed_gas pu
                       then rs m / (bGas props pbar Tbar (rv m) (cond m) c * detR m) else 0)) \<and>
                 (PhaseUsed_gas pu \<longrightarrow>
                    cf (PhasePos_gas pu) =
                      1 / (bGas props pbar Tbar (rv m) (cond m) c * detR m) -
                      (if PhaseUsed_oil pu
                       then rv m / (bOil props pbar Tbar (rs m) (cond m) c * detR m) else 0)))) \<and>
           (\<forall>props2 inp coeff.
              phaseUsage props2 = phaseUsage props \<and> numPhases props2 = numPhases props \<and>
              (\<forall>c. bWat props2 (pressure ra) (temperature ra) c =
                    bWat props (pressure ra) (temperature ra) c) \<and>
              (\<forall>x cnd c. bOil props2 (pressure ra) (temperature ra) x cnd c =
                          bOil props (pressure ra) (temperature ra) x cnd c) \<and>
              (\<forall>x cnd c. bGas props2 (pressure ra) (temperature ra) x cnd c =
                          bGas props (pressure ra) (temperature ra) x cnd c) \<longrightarrow>
              calcCoeff (conv'\<lparr>this_props := props2\<rparr>) inp r coeff = calcCoeff conv' inp r coeff)"
proof -
  note inv = reachable_inv [OF assms(1)]
  from reachable_known [OF assms(1,2)] obtain v where v: "this_attr conv r = Some v" ..
  define conv' where
    "conv' = conv\<lparr>this_attr := (\<lambda>r. map_option (defined_value props region state r) (this_attr conv r))\<rparr>"
  define v' where "v' = defined_value props region state r v"
  define ra where "ra = value_attr v'"
  define c where "c = value_cell v'"
  have d: "defineState conv state = (Returned, conv')"
    unfolding conv'_def by (rule defineState_eq [OF inv])
  have v': "this_attr conv' r = Some v'"
    using v by (simp add: conv'_def v'_def)
  have a: "attributes (this_attr conv') r = Inr ra"
    using v' by (simp add: ra_def attributes_def RegionAttributes_find_def)
  have g: "getRegCell conv' r = Inr c"
    using v' by (simp add: c_def getRegCell_def cell_def RegionAttributes_find_def)
  have p: "this_props conv' = props"
    using inv by (simp add: conv'_def converter_inv_def)
  have n: "cells region r \<noteq> []"
    using inv assms(2) by (simp add: converter_inv_def)
  have mp: "pressure ra = sum_list (map (state_pressure state) (cells region r)) /
                         real (length (cells region r))"
    and mt: "temperature ra = sum_list (map (state_temperature state) (cells region r)) /
                            real (length (cells region r))"
    unfolding ra_def v'_def by (rule defined_value_averages)+
  have pb: "pressure (value_attr v') = pbar" and tb: "temperature (value_attr v') = Tbar"
    using mp mt assms(3,4) by (simp_all add: ra_def)
  have f: "\<forall>inp coeff. \<exists>m cf.
              calcMiscibility conv' inp r = Inr m \<and>
              calcCoeff conv' inp r coeff = (Returned, cf) \<and>
              (PhaseUsage_wf pu (numPhases props) \<longrightarrow>
                 (PhaseUsed_water pu \<longrightarrow> cf (PhasePos_water pu) = 1 / bWat props pbar Tbar c) \<and>
                 (PhaseUsed_oil pu \<longrightarrow>
                    cf (PhasePos_oil pu) =
                      1 / (bOil props pbar Tbar (rs m) (cond m) c * detR m) -
                      (if PhaseUsed_gas pu
                       then rs m / (bGas props pbar Tbar (rv m) (cond m) c * detR m) else 0)) \<and>
                 (PhaseUsed_gas pu \<longrightarrow>
                    cf (PhasePos_gas pu) =
                      1 / (bGas props pbar Tbar (rv m) (cond m) c * detR m) -
                      (if PhaseUsed_oil pu
                       then rv m / (bOil props pbar Tbar (rs m) (cond m) c * detR m) else 0)))"
  proof (intro allI)
    fix inp coeff
    from calcMiscibility_known [OF a, of inp] obtain m where m: "calcMiscibility conv' inp r = Inr m"
      by blast
    show "\<exists>m cf.
              calcMiscibility conv' inp r = Inr m \<and>
              calcCoeff conv' inp r coeff = (Returned, cf) \<and>
              (PhaseUsage_wf pu (numPhases props) \<longrightarrow>
                 (PhaseUsed_water pu \<longrightarrow> cf (PhasePos_water pu) = 1 / bWat props pbar Tbar c) \<and>
                 (PhaseUsed_oil pu \<longrightarrow>
                    cf (PhasePos_oil pu) =
                      1 / (bOil props pbar Tbar (rs m) (cond m) c * detR m) -
                      (if PhaseUsed_gas pu
                       then rs m / (bGas props pbar Tbar (rv m) (cond m) c * detR m) else 0)) \<and>
                 (PhaseUsed_gas pu \<longrightarrow>
                    cf (PhasePos_gas pu) =
                      1 / (bGas props pbar Tbar (rv m) (cond m) c * detR m) -
                      (if PhaseUsed_oil pu
                       then rv m / (bOil props pbar Tbar (rs m) (cond m) c * detR m) else 0)))"
    proof (cases "PhaseUsage_wf pu (numPhases props)")
      case True
      then have wf: "PhaseUsage_wf (phaseUsage (this_props conv')) (numPhases (this_props conv'))"
        by (simp add: p assms(5))
      from calcCoeff_entries [OF v' wf m, of coeff] m show ?thesis
        unfolding p pb tb c_def [symmetric] assms(5) [symmetric] by blast
    next
      case False
      have "fst (calcCoeff conv' inp r coeff) = Returned"
        by (simp add: calcCoeff_def a g m Let_def)
      then obtain cf where "calcCoeff conv' inp r coeff = (Returned, cf)"
        by (cases "calcCoeff conv' inp r coeff") simp
      with False m show ?thesis by blast
    qed
  qed
  have e: "\<forall>props2 inp coeff.
              phaseUsage props2 = phaseUsage props \<and> numPhases props2 = numPhases props \<and>
              (\<forall>c. bWat props2 (pressure ra) (temperature ra) c =
                    bWat props (pressure ra) (temperature ra) c) \<and>
              (\<forall>x cnd c. bOil props2 (pressure ra) (temperature ra) x cnd c =
                          bOil props (pressure ra) (temperature ra) x cnd c) \<and>
              (\<forall>x cnd c. bGas props2 (pressure ra) (temperature ra) x cnd c =
                          bGas props (pressure ra) (temperature ra) x cnd c) \<longrightarrow>
              calcCoeff (conv'\<lparr>this_props := props2\<rparr>) inp r coeff = calcCoeff conv' inp r coeff"
    using calcCoeff_props [OF a] unfolding p by blast
  from d a n mp mt g f e show ?thesis by blast
qed

theorem defineState_region_averages_witness:
  "reachable ex_props_pT ex_region ex_conv_pT \<and>
   0 \<in> set (activeRegions ex_region) \<and>
   defineState ex_conv_pT ex_state = (Returned, ex_defined_pT) \<and>
   (\<exists>ra. attributes (this_attr ex_defined_pT) 0 = Inr ra \<and>
         pressure ra = (100 + 200) / 2 \<and> temperature ra = (300 + 300) / 2) \<and>
   PhaseUsage_wf (phaseUsage ex_props_pT) (numPhases ex_props_pT) \<and>
   (\<exists>cf. calcCoeff ex_defined_pT ex_in 0 (\<lambda>_. 7) = (Returned, cf) \<and>
         cf 0 = 1 / (150 / 100) \<and> cf 1 = 20 / 57 \<and> cf 2 = 17 / 57)"
proof -
  have r: "reachable ex_props_pT ex_region ex_conv_pT"
    by (rule reachable.constructed [OF ex_pT_ctor])
  have k: "0 \<in> set (activeRegions ex_region)" by (simp add: ex_region_def)
  have w: "PhaseUsage_wf (phaseUsage ex_props_pT) (numPhases ex_props_pT)"
    by (simp add: ex_pT_used ex_pT_wf)
  from defineState_region_averages [OF r k refl refl refl, of ex_state]
  obtain conv' ra c where d: "defineState ex_conv_pT ex_state = (Returned, conv')"
    and a: "attributes (this_attr conv') 0 = Inr ra"
    and p: "pressure ra = sum_list (map (state_pressure ex_state) (cells ex_region 0)) /
                         real (length (cells ex_region 0))"
    and t: "temperature ra = sum_list (map (state_temperature ex_state) (cells ex_region 0)) /
                         real (length (cells ex_region 0))"
    and g: "getRegCell conv' 0 = Inr c"
    and f: "\<forall>inp coeff. \<exists>m cf.
              calcMiscibility conv' inp 0 = Inr m \<and>
              calcCoeff conv' inp 0 coeff = (Returned, cf) \<and>
              (PhaseUsage_wf (phaseUsage ex_props_pT) (numPhases ex_props_pT) \<longrightarrow>
                 (PhaseUsed_water (phaseUsage ex_props_pT) \<longrightarrow>
                    cf (PhasePos_water (phaseUsage ex_props_pT)) =
                      1 / bWat ex_props_pT
                            (sum_list (map (state_pressure ex_state) (cells ex_region 0)) /
                               real (length (cells ex_region 0)))
                            (sum_list (map (state_temperature ex_state) (cells ex_region 0)) /
                               real (length (cells ex_region 0))) c) \<and>
                 (PhaseUsed_oil (phaseUsage ex_props_pT) \<longrightarrow>
                    cf (PhasePos_oil (phaseUsage ex_props_pT)) =
                      1 / (bOil ex_props_pT
                            (sum_list (map (state_pressure ex_state) (cells ex_region 0)) /
                               real (length (cells ex_region 0)))
                            (sum_list (map (state_temperature ex_state) (cells ex_region 0)) /
                               real (length (cells ex_region 0))) (rs m) (cond m) c * detR m) -
                      (if PhaseUsed_gas (phaseUsage ex_props_pT)
                       then rs m / (bGas ex_props_pT
                            (sum_list (map (state_pressure ex_state) (cells ex_region 0)) /
                               real (length (cells ex_region 0)))
                            (sum_list (map (state_temperature ex_state) (cells ex_region 0)) /
                               real (length (cells ex_region 0))) (rv m) (cond m) c * detR m) else 0)) \<and>
                 (PhaseUsed_gas (phaseUsage ex_props_pT) \<longrightarrow>
                    cf (PhasePos_gas (phaseUsage ex_props_pT)) =
                      1 / (bGas ex_props_pT
                            (sum_list (map (state_pressure ex_state) (cells ex_region 0)) /
                               real (length (cells ex_region 0)))
                            (sum_list (map (state_temperature ex_state) (cells ex_region 0)) /
                               real (length (cells ex_region 0))) (rv m) (cond m) c * detR m) -
                      (if PhaseUsed_oil (phaseUsage ex_props_pT)
                       then rv m / (bOil ex_props_pT
                            (sum_list (map (state_pressure ex_state) (cells ex_region 0)) /
                               real (length (cells ex_region 0)))
                            (sum_list (map (state_temperature ex_state) (cells ex_region 0)) /
                               real (length (cells ex_region 0))) (rs m) (cond m) c * detR m) else 0)))"
    by blast
  from d have c': "conv' = ex_defined_pT" by (simp add: ex_pT_defineState)
  from g have c0: "c = 0" unfolding c' by (simp add: ex_pT_cell)
  from p have pv: "pressure ra = (100 + 200) / 2" by (simp add: ex_state_def ex_region_def)
  from t have tv: "temperature ra = (300 + 300) / 2" by (simp add: ex_state_def ex_region_def)
  from pv tv a have av: "\<exists>ra. attributes (this_attr ex_defined_pT) 0 = Inr ra \<and>
         pressure ra = (100 + 200) / 2 \<and> temperature ra = (300 + 300) / 2"
    unfolding c' by blast
  from f [rule_format, of ex_in "\<lambda>_. 7"] obtain m cf where
    m: "calcMiscibility ex_defined_pT ex_in 0 = Inr m"
    and cf: "calcCoeff ex_defined_pT ex_in 0 (\<lambda>_. 7) = (Returned, cf)"
    and e: "cf 0 = 1 / bWat ex_props_pT
                            (sum_list (map (state_pressure ex_state) (cells ex_region 0)) /
                               real (length (cells ex_region 0)))
                            (sum_list (map (state_temperature ex_state) (cells ex_region 0)) /
                               real (length (cells ex_region 0))) 0"
       "cf 1 = 1 / (bOil ex_props_pT
                            (sum_list (map (state_pressure ex_state) (cells ex_region 0)) /
                               real (length (cells ex_region 0)))
                            (sum_list (map (state_temperature ex_state) (cells ex_region 0)) /
                               real (length (cells ex_region 0))) (rs m) (cond m) 0 * detR m) -
                rs m / (bGas ex_props_pT
                            (sum_list (map (state_pressure ex_state) (cells ex_region 0)) /
                               real (length (cells ex_region 0)))
                            (sum_list (map (state_temperature ex_state) (cells ex_region 0)) /
                               real (length (cells ex_region 0))) (rv m) (cond m) 0 * detR m)"
       "cf 2 = 1 / (bGas ex_props_pT
                            (sum_list (map (state_pressure ex_state) (cells ex_region 0)) /
                               real (length (cells ex_region 0)))
                            (sum_list (map (state_temperature ex_state) (cells ex_region 0)) /
                               real (length (cells ex_region 0))) (rv m) (cond m) 0 * detR m) -
                rv m / (bOil ex_props_pT
                            (sum_list (map (state_pressure ex_state) (cells ex_region 0)) /
                               real (length (cells ex_region 0)))
                            (sum_list (map (state_temperature ex_state) (cells ex_region 0)) /
                               real (length (cells ex_region 0))) (rs m) (cond m) 0 * detR m)"
    using w unfolding c' c0 by (auto simp: ex_pT_used)
  from m have mv: "m = \<lparr>rs = 1 / 2, rv = 1 / 10,
          cond = \<lparr>free_water = True, free_oil = True, free_gas = False\<rparr>\<rparr>"
    by (simp add: ex_pT_miscibility)
  have "cf 0 = 1 / (150 / 100)" "cf 1 = 20 / 57" "cf 2 = 17 / 57"
    unfolding e mv by (simp_all add: ex_props_pT_def ex_state_def ex_region_def detR_def)
  with cf have "\<exists>cf. calcCoeff ex_defined_pT ex_in 0 (\<lambda>_. 7) = (Returned, cf) \<and>
         cf 0 = 1 / (150 / 100) \<and> cf 1 = 20 / 57 \<and> cf 2 = 17 / 57"
    by blast
  with r k w av ex_pT_defineState show ?thesis by blast
qed

subsection \<open>Unknown regions\<close>

text \<open>
  C9. For a converter the code can hold, every lookup of a region that is not among the
  active regions given to the constructor throws \<^verbatim>\<open>std::invalid_argument\<close> with the message
  \<^verbatim>\<open>Unknown region ID\<close>: \<^verbatim>\<open>find\<close>, \<^verbatim>\<open>cell\<close>, \<^verbatim>\<open>attributes\<close> (read-only and read-write),
  \<^verbatim>\<open>calcMiscibility\<close> and \<^verbatim>\<open>calcCoeff\<close>. The read-write lookup leaves the region table as
  it was, and \<^verbatim>\<open>calcCoeff\<close> leaves its output parameter as it was (the other lookups are
  \<^verbatim>\<open>const\<close> and return no table). For an active region no lookup throws.
\<close>

theorem unknown_region_throws:
  assumes "reachable props region conv"
  shows "(r \<in> set (activeRegions region) \<longrightarrow>
            (\<exists>v. RegionAttributes_find (this_attr conv) r = Inr v \<and>
                  cell (this_attr conv) r = Inr (value_cell v) \<and>
                  attributes (this_attr conv) r = Inr (value_attr v) \<and>
                  fst (attributes_rw (this_attr conv) r f) = Returned \<and>
                  (\<exists>m. calcMiscibility conv inp r = Inr m) \<and>
                  fst (calcCoeff conv inp r coeff) = Returned)) \<and>
         (r \<notin> set (activeRegions region) \<longrightarrow>
            RegionAttributes_find (this_attr conv) r = Inl (invalid_argument ''Unknown region ID'') \<and>
            cell (this_attr conv) r = Inl (invalid_argument ''Unknown region ID'') \<and>
            attributes (this_attr conv) r = Inl (invalid_argument ''Unknown region ID'') \<and>
            attributes_rw (this_attr conv) r f =
              (Thrown (invalid_argument ''Unknown region ID''), this_attr conv) \<and>
            calcMiscibility conv inp r = Inl (invalid_argument ''Unknown region ID'') \<and>
            calcCoeff conv inp r coeff = (Thrown (invalid_argument ''Unknown region ID''), coeff))"
proof -
  have known: "r \<in> set (activeRegions region) \<longrightarrow>
            (\<exists>v. RegionAttributes_find (this_attr conv) r = Inr v \<and>
                  cell (this_attr conv) r = Inr (value_cell v) \<and>
                  attributes (this_attr conv) r = Inr (value_attr v) \<and>
                  fst (attributes_rw (this_attr conv) r f) = Returned \<and>
                  (\<exists>m. calcMiscibility conv inp r = Inr m) \<and>
                  fst (calcCoeff conv inp r coeff) = Returned)"
  proof
    assume k: "r \<in> set (activeRegions region)"
    from reachable_known [OF assms k] obtain v where v: "this_attr conv r = Some v" ..
    then have a: "attributes (this_attr conv) r = Inr (value_attr v)"
      and c: "getRegCell conv r = Inr (value_cell v)"
      by (simp_all add: attributes_def getRegCell_def cell_def RegionAttributes_find_def)
    from calcMiscibility_known [OF a, of inp] obtain m where m: "calcMiscibility conv inp r = Inr m"
      by blast
    have "fst (calcCoeff conv inp r coeff) = Returned"
      by (simp add: calcCoeff_def a c m Let_def)
    with v m show "\<exists>v. RegionAttributes_find (this_attr conv) r = Inr v \<and>
                  cell (this_attr conv) r = Inr (value_cell v) \<and>
                  attributes (this_attr conv) r = Inr (value_attr v) \<and>
                  fst (attributes_rw (this_attr conv) r f) = Returned \<and>
                  (\<exists>m. calcMiscibility conv inp r = Inr m) \<and>
                  fst (calcCoeff conv inp r coeff) = Returned"
      by (simp add: attributes_def cell_def RegionAttributes_find_def attributes_rw_def)
  qed
  have unknown: "r \<notin> set (activeRegions region) \<longrightarrow>
            RegionAttributes_find (this_attr conv) r = Inl (invalid_argument ''Unknown region ID'') \<and>
            cell (this_attr conv) r = Inl (invalid_argument ''Unknown region ID'') \<and>
            attributes (this_attr conv) r = Inl (invalid_argument ''Unknown region ID'') \<and>
            attributes_rw (this_attr conv) r f =
              (Thrown (invalid_argument ''Unknown region ID''), this_attr conv) \<and>
            calcMiscibility conv inp r = Inl (invalid_argument ''Unknown region ID'') \<and>
            calcCoeff conv inp r coeff = (Thrown (invalid_argument ''Unknown region ID''), coeff)"
  proof
    assume "r \<notin> set (activeRegions region)"
    from reachable_unknown [OF assms this] have n: "this_attr conv r = None" .
    then show "RegionAttributes_find (this_attr conv) r = Inl (invalid_argument ''Unknown region ID'') \<and>
            cell (this_attr conv) r = Inl (invalid_argument ''Unknown region ID'') \<and>
            attributes (this_attr conv) r = Inl (invalid_argument ''Unknown region ID'') \<and>
            attributes_rw (this_attr conv) r f =
              (Thrown (invalid_argument ''Unknown region ID''), this_attr conv) \<and>
            calcMiscibility conv inp r = Inl (invalid_argument ''Unknown region ID'') \<and>
            calcCoeff conv inp r coeff = (Thrown (invalid_argument ''Unknown region ID''), coeff)"
      by (simp add: attributes_def cell_def RegionAttributes_find_def attributes_rw_def
          calcMiscibility_def calcCoeff_def Let_def)
  qed
  from known unknown show ?thesis by (rule conjI)
qed

theorem unknown_region_throws_witness:
  "reachable (ex_props (3 / 5) (1 / 10)) ex_region (ex_defined (3 / 5) (1 / 10)) \<and>
   0 \<in> set (activeRegions ex_region) \<and> 7 \<notin> set (activeRegions ex_region) \<and>
   fst (calcCoeff (ex_defined (3 / 5) (1 / 10)) ex_in 0 (\<lambda>_. 9)) = Returned \<and>
   calcCoeff (ex_defined (3 / 5) (1 / 10)) ex_in 7 (\<lambda>_. 9) =
     (Thrown (invalid_argument ''Unknown region ID''), (\<lambda>_. 9)) \<and>
   attributes_rw (this_attr (ex_defined (3 / 5) (1 / 10))) 7 (\<lambda>a. a\<lparr>pressure := 1\<rparr>) =
     (Thrown (invalid_argument ''Unknown region ID''), this_attr (ex_defined (3 / 5) (1 / 10)))"
proof -
  have r: "reachable (ex_props (3 / 5) (1 / 10)) ex_region (ex_defined (3 / 5) (1 / 10))"
    by (rule ex_reachable)
  have k: "0 \<in> set (activeRegions ex_region)" "7 \<notin> set (activeRegions ex_region)"
    by (simp_all add: ex_region_def)
  from unknown_region_throws [OF r, of 0 "\<lambda>a. a" ex_in "\<lambda>_. 9"] k(1)
  have "fst (calcCoeff (ex_defined (3 / 5) (1 / 10)) ex_in 0 (\<lambda>_. 9)) = Returned"
    by blast
  moreover from unknown_region_throws [OF r, of 7 "\<lambda>a. a\<lparr>pressure := 1\<rparr>" ex_in "\<lambda>_. 9"] k(2)
  have "calcCoeff (ex_defined (3 / 5) (1 / 10)) ex_in 7 (\<lambda>_. 9) =
     (Thrown (invalid_argument ''Unknown region ID''), (\<lambda>_. 9)) \<and>
   attributes_rw (this_attr (ex_defined (3 / 5) (1 / 10))) 7 (\<lambda>a. a\<lparr>pressure := 1\<rparr>) =
     (Thrown (invalid_argument ''Unknown region ID''), this_attr (ex_defined (3 / 5) (1 / 10)))"
    by blast
  ultimately show ?thesis using r k by blast
qed

section \<open>Properties of the multisegment well\<close>

subsection \<open>The primary variables\<close>

text \<open>
  C6. With polymer disabled, \<^verbatim>\<open>numWellEq\<close> is \<^verbatim>\<open>numEq + 1\<close> and \<^verbatim>\<open>GTotal\<close> is index 0.
  In the gas/oil two-phase configuration the indices \<open>GTotal, GFrac, SPres\<close> are
  \<open>0, 1, 2\<close>: one fraction variable, the pressure last, and \<^verbatim>\<open>WFrac\<close> is no index. With three
  reservoir equations the indices \<open>GTotal, WFrac, GFrac, SPres\<close> are \<open>0, 1, 2, 3\<close>: two
  fraction variables, water then gas, the pressure last.
\<close>

theorem primary_variable_layout:
  assumes "\<not> EnablePolymer t"
  shows "numWellEq t = numEq t + 1 \<and> GTotal = 0 \<and>
         (gasoil t \<longrightarrow> [GTotal, GFrac t, SPres t] = [0 .. numWellEq t - 1] \<and>
                        SPres t = numWellEq t - 1 \<and> WFrac t < 0) \<and>
         (numEq t = 3 \<longrightarrow> [GTotal, WFrac t, GFrac t, SPres t] = [0 .. numWellEq t - 1] \<and>
                           SPres t = numWellEq t - 1)"
  using assms
  by (auto simp: numWellEq_def GTotal_def GFrac_def SPres_def WFrac_def gasoil_def upto.simps)

theorem primary_variable_layout_witness:
  "\<not> EnablePolymer (ex_tag 2 0) \<and> gasoil (ex_tag 2 0) \<and>
   numWellEq (ex_tag 2 0) = 3 \<and> [GTotal, GFrac (ex_tag 2 0), SPres (ex_tag 2 0)] = [0, 1, 2] \<and>
   \<not> EnablePolymer (ex_tag 3 1) \<and> numEq (ex_tag 3 1) = 3 \<and>
   numWellEq (ex_tag 3 1) = 4 \<and>
   [GTotal, WFrac (ex_tag 3 1), GFrac (ex_tag 3 1), SPres (ex_tag 3 1)] = [0, 1, 2, 3]"
proof -
  have p: "\<not> EnablePolymer (ex_tag 2 0)" "\<not> EnablePolymer (ex_tag 3 1)"
    by (simp_all add: ex_tag_def)
  have g: "gasoil (ex_tag 2 0)" "numEq (ex_tag 3 1) = 3"
    by (simp_all add: ex_tag_def gasoil_def)
  from primary_variable_layout [OF p(1)] g(1)
  have a: "numWellEq (ex_tag 2 0) = numEq (ex_tag 2 0) + 1"
    "[GTotal, GFrac (ex_tag 2 0), SPres (ex_tag 2 0)] = [0 .. numWellEq (ex_tag 2 0) - 1]"
    by blast+
  from primary_variable_layout [OF p(2)] g(2)
  have b: "numWellEq (ex_tag 3 1) = numEq (ex_tag 3 1) + 1"
    "[GTotal, WFrac (ex_tag 3 1), GFrac (ex_tag 3 1), SPres (ex_tag 3 1)] = [0 .. numWellEq (ex_tag 3 1) - 1]"
    by blast+
  have n: "numEq (ex_tag 2 0) = 2" by (simp add: ex_tag_def)
  from a b p g n show ?thesis by (simp add: upto.simps)
qed

subsection \<open>Linear algebra on lists\<close>

lemma dot_sum: "length u = length v \<Longrightarrow> dot u v = (\<Sum>k<length v. u ! k * v ! k)"
proof -
  assume l: "length u = length v"
  have "dot u v = (\<Sum>k = 0..<length (map2 (*) u v). map2 (*) u v ! k)"
    unfolding dot_def by (rule sum_list_sum_nth)
  also have "\<dots> = (\<Sum>k = 0..<length v. u ! k * v ! k)"
    using l by (intro sum.cong) auto
  finally show ?thesis by (simp add: lessThan_atLeast0)
qed

lemma mat_dims_row: "mat_dims n m A \<Longrightarrow> i < n \<Longrightarrow> length (A ! i) = m"
  by (auto simp: mat_dims_def list_all_length)

lemma length_mat_vec: "length (mat_vec A x) = length A"
  by (simp add: mat_vec_def)

lemma nth_mat_vec:
  "mat_dims n m A \<Longrightarrow> length x = m \<Longrightarrow> i < n \<Longrightarrow> mat_vec A x ! i = (\<Sum>k<m. A ! i ! k * x ! k)"
  using mat_dims_row [of n m A i]
  by (simp add: mat_vec_def mat_dims_def dot_sum)

lemma nth_mat_mul:
  assumes "mat_dims n n A" and "mat_dims n n B" and "i < n" and "j < n"
  shows "mat_mul n A B ! i ! j = (\<Sum>k<n. A ! i ! k * B ! k ! j)"
proof -
  have la: "length (A ! i) = n" using assms(1,3) by (rule mat_dims_row)
  have lb: "length B = n" using assms(2) by (simp add: mat_dims_def)
  have "mat_mul n A B ! i ! j = dot (A ! i) (col B j)"
    using assms by (simp add: mat_mul_def mat_dims_def)
  also have "\<dots> = (\<Sum>k<length (col B j). A ! i ! k * col B j ! k)"
    by (rule dot_sum) (simp add: col_def la lb)
  also have "\<dots> = (\<Sum>k<n. A ! i ! k * B ! k ! j)"
    by (intro sum.cong) (simp_all add: col_def lb)
  finally show ?thesis .
qed

lemma mat_vec_inverse:
  assumes A: "mat_dims n n A" and B: "mat_dims n n B" and y: "length y = n"
    and one: "mat_mul n A B = one_mat n"
  shows "mat_vec A (mat_vec B y) = y"
proof (rule nth_equalityI)
  show "length (mat_vec A (mat_vec B y)) = length y"
    using A y by (simp add: length_mat_vec mat_dims_def)
next
  fix i assume "i < length (mat_vec A (mat_vec B y))"
  then have i: "i < n" using A by (simp add: length_mat_vec mat_dims_def)
  have lb: "length (mat_vec B y) = n" using B by (simp add: length_mat_vec mat_dims_def)
  have "mat_vec A (mat_vec B y) ! i = (\<Sum>k<n. A ! i ! k * mat_vec B y ! k)"
    by (rule nth_mat_vec [OF A lb i])
  also have "\<dots> = (\<Sum>k<n. A ! i ! k * (\<Sum>j<n. B ! k ! j * y ! j))"
    by (intro sum.cong refl) (simp add: nth_mat_vec [OF B y])
  also have "\<dots> = (\<Sum>k<n. \<Sum>j<n. A ! i ! k * B ! k ! j * y ! j)"
    by (simp add: sum_distrib_left mult.assoc)
  also have "\<dots> = (\<Sum>j<n. \<Sum>k<n. A ! i ! k * B ! k ! j * y ! j)"
    by (rule sum.swap)
  also have "\<dots> = (\<Sum>j<n. mat_mul n A B ! i ! j * y ! j)"
    by (intro sum.cong refl) (simp add: nth_mat_mul [OF A B i] sum_distrib_right)
  also have "\<dots> = (\<Sum>j<n. (if i = j then 1 else 0) * y ! j)"
    using i by (intro sum.cong refl) (simp add: one one_mat_def)
  also have "\<dots> = (\<Sum>j<n. if j = i then y ! j else 0)"
    by (intro sum.cong refl) auto
  also have "\<dots> = y ! i"
    using i by simp
  finally show "mat_vec A (mat_vec B y) ! i = y ! i" .
qed

lemma length_vec_sub: "length (vec_sub u v) = min (length u) (length v)"
  by (simp add: vec_sub_def)

lemma ex_assembled: "assembled 2 3 ex_well"
  by (simp add: assembled_def ex_well_def mat_dims_def mat_mul_def one_mat_def col_def dot_def
      upt_conv_Cons)

subsection \<open>Recovering the well increment\<close>

text \<open>
  C1. For an assembled well (the dimensions fit and \<open>D\<close> is invertible) and a reservoir
  increment \<open>x\<close>, the recovered well increment is \<open>xw = D\<^sup>-\<^sup>1 \<cdot> (resWell - B \<cdot> x)\<close>; it
  satisfies \<open>D \<cdot> xw = resWell - B \<cdot> x\<close>, and it is the only vector of its length that
  does.
\<close>

theorem recover_solves_well_system:
  assumes "assembled nw nr w" and "length x = nr"
  shows "recoverSolutionWell w x =
           mat_vec (invDuneD w) (vec_sub (resWell w) (mat_vec (duneB w) x)) \<and>
         mat_vec (duneD w) (recoverSolutionWell w x) = vec_sub (resWell w) (mat_vec (duneB w) x) \<and>
         (\<forall>xw. length xw = nw \<and> mat_vec (duneD w) xw = vec_sub (resWell w) (mat_vec (duneB w) x)
                \<longrightarrow> xw = recoverSolutionWell w x)"
proof -
  let ?rhs = "vec_sub (resWell w) (mat_vec (duneB w) x)"
  from assms(1) have D: "mat_dims nw nw (duneD w)" and I: "mat_dims nw nw (invDuneD w)"
    and B: "mat_dims nw nr (duneB w)" and r: "length (resWell w) = nw"
    and DI: "mat_mul nw (duneD w) (invDuneD w) = one_mat nw"
    and ID: "mat_mul nw (invDuneD w) (duneD w) = one_mat nw"
    by (simp_all add: assembled_def)
  have l: "length ?rhs = nw"
    using B r by (simp add: length_vec_sub length_mat_vec mat_dims_def)
  have e: "recoverSolutionWell w x = mat_vec (invDuneD w) ?rhs"
    by (simp add: recoverSolutionWell_def)
  have s: "mat_vec (duneD w) (recoverSolutionWell w x) = ?rhs"
    unfolding e by (rule mat_vec_inverse [OF D I l DI])
  have u: "\<forall>xw. length xw = nw \<and> mat_vec (duneD w) xw = ?rhs \<longrightarrow> xw = recoverSolutionWell w x"
  proof (intro allI impI)
    fix xw assume h: "length xw = nw \<and> mat_vec (duneD w) xw = ?rhs"
    then have "mat_vec (invDuneD w) (mat_vec (duneD w) xw) = xw"
      using mat_vec_inverse [OF I D _ ID] by blast
    with h show "xw = recoverSolutionWell w x" unfolding e by simp
  qed
  from e s u show ?thesis by blast
qed

theorem recover_solves_well_system_witness:
  "assembled 2 3 ex_well \<and> length [1, 1, 1 :: real] = 3 \<and>
   recoverSolutionWell ex_well [1, 1, 1] = [1, 0] \<and>
   mat_vec (duneD ex_well) [1, 0] = vec_sub (resWell ex_well) (mat_vec (duneB ex_well) [1, 1, 1])"
proof -
  have l: "length [1, 1, 1 :: real] = 3" by simp
  have v: "recoverSolutionWell ex_well [1, 1, 1] = [1, 0]"
    by (simp add: recoverSolutionWell_def ex_well_def mat_vec_def vec_sub_def dot_def)
  from recover_solves_well_system [OF ex_assembled l]
  have "mat_vec (duneD ex_well) (recoverSolutionWell ex_well [1, 1, 1]) =
          vec_sub (resWell ex_well) (mat_vec (duneB ex_well) [1, 1, 1])"
    by blast
  with v ex_assembled l show ?thesis by simp
qed

subsection \<open>The contribution to the global system\<close>

text \<open>
  C4. For an assembled well and a reservoir increment \<open>x\<close>, \<^verbatim>\<open>apply(x, Ax)\<close> leaves
  \<open>Ax - C \<cdot> (D\<^sup>-\<^sup>1 \<cdot> (B \<cdot> x))\<close> in the accumulator and \<^verbatim>\<open>apply(r)\<close> leaves
  \<open>r - C \<cdot> (D\<^sup>-\<^sup>1 \<cdot> resWell)\<close>, where \<open>D\<^sup>-\<^sup>1 \<cdot> (B \<cdot> x)\<close> and \<open>D\<^sup>-\<^sup>1 \<cdot> resWell\<close> solve the
  systems of \<open>D\<close> with the right-hand sides \<open>B \<cdot> x\<close> and \<open>resWell\<close>; neither call changes
  the blocks \<open>B\<close>, \<open>C\<close>, \<open>D\<close> or \<open>resWell\<close> of the well.
\<close>

theorem apply_subtracts_well_effect:
  assumes "assembled nw nr w" and "length x = nr"
  shows "fst (apply_x_Ax w x Ax) =
           vec_sub Ax (mat_vec (duneC w) (mat_vec (invDuneD w) (mat_vec (duneB w) x))) \<and>
         fst (apply_r w r) = vec_sub r (mat_vec (duneC w) (mat_vec (invDuneD w) (resWell w))) \<and>
         mat_vec (duneD w) (mat_vec (invDuneD w) (mat_vec (duneB w) x)) = mat_vec (duneB w) x \<and>
         mat_vec (duneD w) (mat_vec (invDuneD w) (resWell w)) = resWell w \<and>
         snd (apply_x_Ax w x Ax) = w \<and> snd (apply_r w r) = w"
proof -
  from assms(1) have D: "mat_dims nw nw (duneD w)" and I: "mat_dims nw nw (invDuneD w)"
    and B: "mat_dims nw nr (duneB w)" and rw: "length (resWell w) = nw"
    and DI: "mat_mul nw (duneD w) (invDuneD w) = one_mat nw"
    by (simp_all add: assembled_def)
  have lb: "length (mat_vec (duneB w) x) = nw"
    using B by (simp add: length_mat_vec mat_dims_def)
  have 1: "mat_vec (duneD w) (mat_vec (invDuneD w) (mat_vec (duneB w) x)) = mat_vec (duneB w) x"
    by (rule mat_vec_inverse [OF D I lb DI])
  have 2: "mat_vec (duneD w) (mat_vec (invDuneD w) (resWell w)) = resWell w"
    by (rule mat_vec_inverse [OF D I rw DI])
  from 1 2 show ?thesis by (simp add: apply_x_Ax_def apply_r_def)
qed

theorem apply_subtracts_well_effect_witness:
  "assembled 2 3 ex_well \<and> length [1, 1, 1 :: real] = 3 \<and>
   apply_x_Ax ex_well [1, 1, 1] [10, 10, 10] = ([9, 9, 8], ex_well) \<and>
   apply_r ex_well [10, 10, 10] = ([8, 9, 7], ex_well)"
proof -
  have l: "length [1, 1, 1 :: real] = 3" by simp
  from apply_subtracts_well_effect [OF ex_assembled l, of "[10, 10, 10]" "[10, 10, 10]"]
  have "fst (apply_x_Ax ex_well [1, 1, 1] [10, 10, 10]) =
           vec_sub [10, 10, 10] (mat_vec (duneC ex_well) (mat_vec (invDuneD ex_well) (mat_vec (duneB ex_well) [1, 1, 1])))"
    and "fst (apply_r ex_well [10, 10, 10]) =
           vec_sub [10, 10, 10] (mat_vec (duneC ex_well) (mat_vec (invDuneD ex_well) (resWell ex_well)))"
    and "snd (apply_x_Ax ex_well [1, 1, 1] [10, 10, 10]) = ex_well"
    and "snd (apply_r ex_well [10, 10, 10]) = ex_well"
    by blast+
  moreover have "vec_sub [10, 10, 10] (mat_vec (duneC ex_well) (mat_vec (invDuneD ex_well) (mat_vec (duneB ex_well) [1, 1, 1]))) = [9, 9, 8]"
    by (simp add: ex_well_def mat_vec_def vec_sub_def dot_def)
  moreover have "vec_sub [10, 10, 10] (mat_vec (duneC ex_well) (mat_vec (invDuneD ex_well) (resWell ex_well))) = [8, 9, 7]"
    by (simp add: ex_well_def mat_vec_def vec_sub_def dot_def)
  ultimately have "apply_x_Ax ex_well [1, 1, 1] [10, 10, 10] = ([9, 9, 8], ex_well) \<and>
   apply_r ex_well [10, 10, 10] = ([8, 9, 7], ex_well)"
    by (simp add: prod_eq_iff)
  with ex_assembled l show ?thesis by blast
qed

end
